theory Spec2Isabelle
  imports Main "HOL-Library.Word"
begin

section \<open>Strings and numbers as Python renders them\<close>

text \<open>
  A Python \<open>str\<close> is modelled as a \<open>string\<close> whose characters are code points below 256;
  the only non-ASCII letter in the literals of \<open>App.py\<close> is U+00E9 (e with acute accent),
  written \<open>CHR 0xE9\<close>. A Python \<open>int\<close> is an \<open>int\<close>. An f-string field \<open>{n}\<close> of an
  integer is its decimal rendering, with a leading minus sign when negative.
\<close>

definition digit_char :: "nat \<Rightarrow> char" where
  "digit_char d = ''0123456789'' ! d"

function str_nat :: "nat \<Rightarrow> string" where
  "str_nat n = (if n < 10 then [digit_char n] else str_nat (n div 10) @ [digit_char (n mod 10)])"
  by pat_completeness auto
termination
  by (relation "measure id") auto

declare str_nat.simps [simp del]

definition str_int :: "int \<Rightarrow> string" where
  "str_int i = (if i < 0 then CHR ''-'' # str_nat (nat (- i)) else str_nat (nat i))"

definition e_acute :: char where
  "e_acute = CHR 0xE9"

definition quote :: char where
  "quote = CHR 0x27"

section \<open>The filename helper\<close>

text \<open>
  \<open>os.path.splitext\<close> on a POSIX host is \<open>genericpath._splitext(p, '/', None, '.')\<close>:
  the extension starts at the last dot, provided that dot comes after the last slash and
  that some character between the slash and the dot is not a dot.
  \<open>str.rfind\<close> is the index of the last occurrence, or \<open>-1\<close>.
\<close>

fun rfind_aux :: "char \<Rightarrow> string \<Rightarrow> int \<Rightarrow> int \<Rightarrow> int" where
  "rfind_aux c [] i found = found"
| "rfind_aux c (x # xs) i found = rfind_aux c xs (i + 1) (if x = c then i else found)"

definition rfind :: "string \<Rightarrow> char \<Rightarrow> int" where
  "rfind p c = rfind_aux c p 0 (- 1)"

function skip_dots :: "string \<Rightarrow> nat \<Rightarrow> nat \<Rightarrow> string \<times> string" where
  "skip_dots p filenameIndex dotIndex =
     (if filenameIndex < dotIndex then
        (if p ! filenameIndex \<noteq> CHR ''.'' then (take dotIndex p, drop dotIndex p)
         else skip_dots p (filenameIndex + 1) dotIndex)
      else (p, []))"
  by pat_completeness auto
termination
  by (relation "measure (\<lambda>(p, i, d). d - i)") auto

declare skip_dots.simps [simp del]

definition splitext :: "string \<Rightarrow> string \<times> string" where
  "splitext p =
     (let sepIndex = rfind p CHR ''/'';
          dotIndex = rfind p CHR ''.''
      in if dotIndex > sepIndex then skip_dots p (nat (sepIndex + 1)) (nat dotIndex)
         else (p, []))"

definition get_correct_filename :: "string \<Rightarrow> int \<Rightarrow> string \<Rightarrow> string" where
  "get_correct_filename original_filename scale format_type =
     (let base_name = fst (splitext original_filename);
          extension = (if format_type = ''JPEG'' then ''jpg'' else ''png'')
      in str_int scale @ ''x_'' @ base_name @ ''.'' @ extension)"

section \<open>Base64 as the Python library computes it\<close>

text \<open>
  \<open>base64.b64encode\<close> is \<open>binascii.b2a_base64\<close> without the trailing newline: three
  bytes give four characters of the alphabet, and a last group of one or two bytes is
  padded with \<open>=\<close>. \<open>base64.b64decode\<close> of a \<open>str\<close> first requires ASCII characters
  and then runs \<open>binascii.a2b_base64\<close> in its lenient mode, the loop of \<open>binascii.c\<close>
  in CPython 3.11: characters outside the alphabet are skipped, a pad that completes a
  group ends the input, and leftover characters are an error. The shifts and masks of the
  C code are written as multiplications, divisions and remainders: the operands of each
  \<open>|\<close> have no bit in common, so it is an addition.
\<close>

type_synonym byte = "8 word"

definition b64_alphabet :: string where
  "b64_alphabet = ''ABCDEFGHIJKLMNOPQRSTUVWXYZabcdefghijklmnopqrstuvwxyz0123456789+/''"

definition table_b2a_base64 :: "nat \<Rightarrow> char" where
  "table_b2a_base64 n = b64_alphabet ! n"

fun index_of :: "'a \<Rightarrow> 'a list \<Rightarrow> nat option" where
  "index_of x [] = None"
| "index_of x (y # ys) = (if x = y then Some 0 else map_option Suc (index_of x ys))"

definition table_a2b_base64 :: "char \<Rightarrow> nat option" where
  "table_a2b_base64 c = index_of c b64_alphabet"

fun b2a_base64 :: "byte list \<Rightarrow> string" where
  "b2a_base64 [] = []"
| "b2a_base64 [a] =
     [table_b2a_base64 (unat a div 4), table_b2a_base64 (unat a mod 4 * 16), CHR ''='', CHR ''='']"
| "b2a_base64 [a, b] =
     [table_b2a_base64 (unat a div 4), table_b2a_base64 (unat a mod 4 * 16 + unat b div 16),
      table_b2a_base64 (unat b mod 16 * 4), CHR ''='']"
| "b2a_base64 (a # b # c # rest) =
     [table_b2a_base64 (unat a div 4), table_b2a_base64 (unat a mod 4 * 16 + unat b div 16),
      table_b2a_base64 (unat b mod 16 * 4 + unat c div 64), table_b2a_base64 (unat c mod 64)]
     @ b2a_base64 rest"


datatype binascii_error = Incorrect_padding | Invalid_length nat | Non_ascii

fun a2b_loop :: "nat \<Rightarrow> nat \<Rightarrow> nat \<Rightarrow> byte list \<Rightarrow> string \<Rightarrow> binascii_error + byte list" where
  "a2b_loop quad_pos leftchar pads bin_data [] =
     (if quad_pos \<noteq> 0 then
        Inl (if quad_pos = 1 then Invalid_length (length bin_data div 3 * 4 + 1)
             else Incorrect_padding)
      else Inr bin_data)"
| "a2b_loop quad_pos leftchar pads bin_data (this_ch # rest) =
     (if this_ch = CHR ''='' then
        (if quad_pos \<ge> 2 then
           (if quad_pos + (pads + 1) \<ge> 4 then Inr bin_data
            else a2b_loop quad_pos leftchar (pads + 1) bin_data rest)
         else a2b_loop quad_pos leftchar pads bin_data rest)
      else
        (case table_a2b_base64 this_ch of
           None \<Rightarrow> a2b_loop quad_pos leftchar pads bin_data rest
         | Some v \<Rightarrow>
             (if quad_pos = 0 then a2b_loop 1 v 0 bin_data rest
              else if quad_pos = 1 then
                a2b_loop 2 (v mod 16) 0 (bin_data @ [of_nat (leftchar * 4 + v div 16)]) rest
              else if quad_pos = 2 then
                a2b_loop 3 (v mod 4) 0 (bin_data @ [of_nat (leftchar * 16 + v div 4)]) rest
              else a2b_loop 0 0 0 (bin_data @ [of_nat (leftchar * 64 + v)]) rest)))"

definition b64encode :: "byte list \<Rightarrow> string" where
  "b64encode s = b2a_base64 s"

definition b64decode :: "string \<Rightarrow> binascii_error + byte list" where
  "b64decode s = (if \<exists>c \<in> set s. of_char c \<ge> (128::nat) then Inl Non_ascii else a2b_loop 0 0 0 [] s)"


text \<open>\<open>str(e)\<close> of the exceptions that \<open>b64decode\<close> raises.\<close>

fun str_binascii_error :: "binascii_error \<Rightarrow> string" where
  "str_binascii_error Incorrect_padding = ''Incorrect padding''"
| "str_binascii_error (Invalid_length n) =
     ''Invalid base64-encoded string: number of data characters ('' @ str_nat n @
     '') cannot be 1 more than a multiple of 4''"
| "str_binascii_error Non_ascii = ''string argument should contain only ASCII characters''"


section \<open>Data of the record store and of the enhancement service\<close>

text \<open>
  The JSON objects that \<open>App.py\<close> reads and writes, one record type per object shape; a
  key that may be absent is an \<open>option\<close>. The credit fields are numbers, as in the data
  model of the specification. A processing time is \<open>round(seconds, 2)\<close>, kept as the
  number of hundredths of a second.
\<close>

type_synonym duration = int

record account_fields =
  API_KEY :: "string option"
  Used_credits :: "int option"
  Allowed_credits :: "int option"

record airtable_record =
  record_id :: string
  record_fields :: account_fields

record log_entry =
  log_timestamp :: string
  log_api_key :: string
  log_status :: string
  log_original_size :: "string option"
  log_output_size :: "string option"
  log_scale :: "int option"
  log_format :: "string option"
  log_processing_time :: "duration option"
  log_error_message :: "string option"

record payload =
  payload_image :: string
  payload_scale :: int
  payload_format :: string

record api_result =
  result_success :: "bool option"
  result_output_image :: "string option"
  result_original_size :: "string option"
  result_output_size :: "string option"
  result_error :: "string option"

text \<open>
  What a call of \<open>requests.get\<close>, \<open>requests.post\<close> or \<open>requests.patch\<close> yields: an
  exception with its message, or a response with its status code and its body.
  The body of the enhancement service is the pair of \<open>response.text\<close> and
  \<open>response.json()\<close>, the latter \<open>Inl\<close> with the message when reading it raises.
\<close>

datatype 'body outcome = Raised string | Returned nat 'body

type_synonym api_body = "string \<times> (string + api_result)"

datatype request =
    Auth_GET "string option"
  | Auth_PATCH string account_fields
  | Logs_POST log_entry
  | Enhance_POST payload

datatype fault = Connection_error string | Error_status nat

text \<open>
  The state outside the program: the two Airtable tables, how each kind of store request
  fares (\<open>None\<close>: it is served), the enhancement service as a function of the payload,
  the two clock readings, and the requests sent so far, oldest first.
\<close>

record world =
  auth_table :: "airtable_record list"
  logs_table :: "log_entry list"
  auth_query_fault :: "fault option"
  auth_update_fault :: "fault option"
  logs_create_fault :: "fault option"
  enhancement_service :: "payload \<Rightarrow> api_body outcome"
  clock_now :: string
  clock_elapsed :: duration
  sent :: "request list"

section \<open>The record store seen from the client\<close>

text \<open>The formula both credit functions build: \<open>f"{{API_KEY}} = '{api_key}'"\<close>.\<close>

definition key_filter :: "string \<Rightarrow> string" where
  "key_filter api_key = ''{API_KEY} = '' @ [quote] @ api_key @ [quote]"

text \<open>
  Modelled from the spec: the store's side of the three requests, which is not code of the
  repository. A query with the equality filter on the API-key field selects the records
  whose \<open>API_KEY\<close> is that key, in table order; an update replaces the fields it names in
  the record with that id, and answers 404 when there is none; a create appends the entry.
  A request that meets a fault changes nothing and carries no record.
\<close>

definition formula_holds :: "string \<Rightarrow> airtable_record \<Rightarrow> bool" where
  "formula_holds formula r =
     (case API_KEY (record_fields r) of None \<Rightarrow> False | Some k \<Rightarrow> formula = key_filter k)"

definition airtable_select :: "world \<Rightarrow> string option \<Rightarrow> airtable_record list option outcome" where
  "airtable_select w formula =
     (case auth_query_fault w of
        Some (Connection_error e) \<Rightarrow> Raised e
      | Some (Error_status code) \<Rightarrow> Returned code None
      | None \<Rightarrow>
          Returned 200
            (Some (case formula of None \<Rightarrow> auth_table w
                   | Some f \<Rightarrow> filter (formula_holds f) (auth_table w))))"

definition merge_fields :: "account_fields \<Rightarrow> account_fields \<Rightarrow> account_fields" where
  "merge_fields old new =
     \<lparr>API_KEY = (case API_KEY new of None \<Rightarrow> API_KEY old | Some k \<Rightarrow> Some k),
      Used_credits = (case Used_credits new of None \<Rightarrow> Used_credits old | Some u \<Rightarrow> Some u),
      Allowed_credits =
        (case Allowed_credits new of None \<Rightarrow> Allowed_credits old | Some a \<Rightarrow> Some a)\<rparr>"

definition patch_table :: "string \<Rightarrow> account_fields \<Rightarrow> airtable_record list \<Rightarrow> airtable_record list" where
  "patch_table rid new table =
     map (\<lambda>r. if record_id r = rid then r\<lparr>record_fields := merge_fields (record_fields r) new\<rparr>
              else r) table"

definition airtable_update ::
  "world \<Rightarrow> string \<Rightarrow> account_fields \<Rightarrow> airtable_record option outcome \<times> airtable_record list" where
  "airtable_update w rid new =
     (case auth_update_fault w of
        Some (Connection_error e) \<Rightarrow> (Raised e, auth_table w)
      | Some (Error_status code) \<Rightarrow> (Returned code None, auth_table w)
      | None \<Rightarrow>
          (case find (\<lambda>r. record_id r = rid) (auth_table w) of
             None \<Rightarrow> (Returned 404 None, auth_table w)
           | Some r \<Rightarrow>
               (Returned 200 (Some (r\<lparr>record_fields := merge_fields (record_fields r) new\<rparr>)),
                patch_table rid new (auth_table w))))"

definition airtable_create :: "world \<Rightarrow> log_entry \<Rightarrow> log_entry option outcome \<times> log_entry list" where
  "airtable_create w entry =
     (case logs_create_fault w of
        Some (Connection_error e) \<Rightarrow> (Raised e, logs_table w)
      | Some (Error_status code) \<Rightarrow> (Returned code None, logs_table w)
      | None \<Rightarrow> (Returned 200 (Some entry), logs_table w @ [entry]))"

text \<open>
  \<open>Response.raise_for_status\<close> raises \<open>HTTPError\<close>, a \<open>RequestException\<close>, exactly for
  the status codes 400 to 599.
\<close>

definition raise_for_status :: "nat \<Rightarrow> bool" where
  "raise_for_status code \<longleftrightarrow> 400 \<le> code \<and> code < 600"

text \<open>
  The three methods of \<open>AirtableClient\<close>. The class is instantiated twice, by
  \<open>initialize_auth_client\<close> and \<open>initialize_logs_client\<close>; \<open>get_records\<close> and
  \<open>update_record\<close> are only called on the first, \<open>create_record\<close> only on the second,
  and the methods below are those of that client. Each catches \<open>RequestException\<close> and
  returns the empty list or \<open>None\<close>; the message it shows with \<open>st.error\<close> belongs to the
  presentation layer and is left out. A body without records reads as \<open>None\<close>.
\<close>

definition get_records :: "world \<Rightarrow> string option \<Rightarrow> airtable_record list \<times> world" where
  "get_records w filter_formula =
     (let params = (case filter_formula of None \<Rightarrow> None
                    | Some f \<Rightarrow> if f \<noteq> [] then Some f else None);
          w' = w\<lparr>sent := sent w @ [Auth_GET params]\<rparr>
      in case airtable_select w params of
           Raised e \<Rightarrow> ([], w')
         | Returned code body \<Rightarrow>
             if raise_for_status code then ([], w')
             else (case body of None \<Rightarrow> ([], w') | Some records \<Rightarrow> (records, w')))"

definition create_record :: "world \<Rightarrow> log_entry \<Rightarrow> log_entry option \<times> world" where
  "create_record w flds =
     (let (reply, table) = airtable_create w flds;
          w' = w\<lparr>logs_table := table, sent := sent w @ [Logs_POST flds]\<rparr>
      in case reply of
           Raised e \<Rightarrow> (None, w')
         | Returned code body \<Rightarrow> if raise_for_status code then (None, w') else (body, w'))"

definition update_record :: "world \<Rightarrow> string \<Rightarrow> account_fields \<Rightarrow> airtable_record option \<times> world" where
  "update_record w rid flds =
     (let (reply, table) = airtable_update w rid flds;
          w' = w\<lparr>auth_table := table, sent := sent w @ [Auth_PATCH rid flds]\<rparr>
      in case reply of
           Raised e \<Rightarrow> (None, w')
         | Returned code body \<Rightarrow> if raise_for_status code then (None, w') else (body, w'))"

section \<open>The credit ledger\<close>

text \<open>\<open>fields.get(key, 0)\<close>: the value of the field, and 0 when the key is absent.\<close>

definition get_or_zero :: "int option \<Rightarrow> int" where
  "get_or_zero v = (case v of None \<Rightarrow> 0 | Some n \<Rightarrow> n)"

text \<open>
  \<open>check_api_key_credits\<close> returns the pair of \<open>None\<close>, \<open>False\<close> or \<open>True\<close> and a
  message; the status is a \<open>bool option\<close>.
\<close>

definition check_api_key_credits :: "world \<Rightarrow> string \<Rightarrow> (bool option \<times> string) \<times> world" where
  "check_api_key_credits w api_key =
     (let filter_formula = key_filter api_key;
          (records, w') = get_records w (Some filter_formula)
      in case records of
           [] \<Rightarrow> ((None, ''Cl'' @ [e_acute] @ '' API non trouv'' @ [e_acute] @ ''e''), w')
         | record # _ \<Rightarrow>
             (let flds = record_fields record;
                  used = get_or_zero (Used_credits flds);
                  allowed = get_or_zero (Allowed_credits flds);
                  remaining = allowed - used
              in if remaining \<le> 0 then
                   ((Some False,
                     ''Plus de cr'' @ [e_acute] @ ''dits restants (utilis'' @ [e_acute] @ ''s: '' @
                     str_int used @ ''/'' @ str_int allowed @ '')''), w')
                 else
                   ((Some True,
                     str_int remaining @ '' cr'' @ [e_acute] @ ''dits restants (utilis'' @
                     [e_acute] @ ''s: '' @ str_int used @ ''/'' @ str_int allowed @ '')''), w')))"

definition update_credits :: "world \<Rightarrow> string \<Rightarrow> int \<Rightarrow> world" where
  "update_credits w api_key increment =
     (let filter_formula = key_filter api_key;
          (records, w') = get_records w (Some filter_formula)
      in case records of
           [] \<Rightarrow> w'
         | record # _ \<Rightarrow>
             (let current_used = get_or_zero (Used_credits (record_fields record));
                  new_used = current_used + increment
              in snd (update_record w' (record_id record)
                        \<lparr>API_KEY = None, Used_credits = Some new_used, Allowed_credits = None\<rparr>)))"

section \<open>The usage logger\<close>

text \<open>\<open>str(x) if x else None\<close> on an optional string: an empty string is falsy.\<close>

definition str_if_truthy :: "string option \<Rightarrow> string option" where
  "str_if_truthy x = (case x of None \<Rightarrow> None | Some s \<Rightarrow> if s \<noteq> [] then Some s else None)"

definition log_api_call ::
  "world \<Rightarrow> string \<Rightarrow> string \<Rightarrow> string option \<Rightarrow> string option \<Rightarrow> int option \<Rightarrow> string option \<Rightarrow>
   duration option \<Rightarrow> string option \<Rightarrow> world" where
  "log_api_call w api_key status original_size output_size scale format_type processing_time
     error_message =
     (let log_entry =
            \<lparr>log_timestamp = clock_now w,
             log_api_key = api_key,
             log_status = status,
             log_original_size = str_if_truthy original_size,
             log_output_size = str_if_truthy output_size,
             log_scale = scale,
             log_format = format_type,
             log_processing_time = processing_time,
             log_error_message = error_message\<rparr>
      in snd (create_record w log_entry))"

section \<open>The enhancement call\<close>

text \<open>
  The third component of the result of \<open>enhance_image\<close>: the service's JSON object on
  success, and \<open>{"error": error_msg}\<close> otherwise. The defaults \<open>scale=4\<close> and
  \<open>format_type="JPEG"\<close> of the source are arguments like any other here.
\<close>

datatype details = Details_result api_result | Details_error string

text \<open>
  The handler of \<open>except Exception\<close>: it logs the status \<open>exception\<close> with \<open>str(e)\<close>.
  In the model an exception can only come from the request, from reading the response,
  from the missing key \<open>output_image\<close> or from \<open>b64decode\<close>, all before the first log.
\<close>

definition on_exception ::
  "world \<Rightarrow> string \<Rightarrow> int \<Rightarrow> string \<Rightarrow> string \<Rightarrow> (bool \<times> byte list option \<times> details) \<times> world" where
  "on_exception w api_key scale format_type error_msg =
     (let processing_time = clock_elapsed w;
          w' = log_api_call w api_key ''exception'' None None (Some scale) (Some format_type)
                 (Some processing_time) (Some error_msg)
      in ((False, None, Details_error error_msg), w'))"

definition enhance_image ::
  "world \<Rightarrow> byte list \<Rightarrow> string \<Rightarrow> int \<Rightarrow> string \<Rightarrow> (bool \<times> byte list option \<times> details) \<times> world" where
  "enhance_image w image_data api_key scale format_type =
     (let image_b64 = b64encode image_data;
          payload = \<lparr>payload_image = image_b64, payload_scale = scale,
                     payload_format = format_type\<rparr>;
          w1 = w\<lparr>sent := sent w @ [Enhance_POST payload]\<rparr>;
          processing_time = clock_elapsed w
      in case enhancement_service w payload of
           Raised e \<Rightarrow> on_exception w1 api_key scale format_type e
         | Returned status_code (text, json) \<Rightarrow>
             if status_code = 200 then
               (case json of
                  Inl e \<Rightarrow> on_exception w1 api_key scale format_type e
                | Inr result \<Rightarrow>
                    if result_success result = Some True then
                      (case result_output_image result of
                         None \<Rightarrow>
                           on_exception w1 api_key scale format_type
                             ([quote] @ ''output_image'' @ [quote])
                       | Some output_image \<Rightarrow>
                           (case b64decode output_image of
                              Inl e \<Rightarrow>
                                on_exception w1 api_key scale format_type (str_binascii_error e)
                            | Inr output_data \<Rightarrow>
                                (let w2 = log_api_call w1 api_key ''success''
                                            (result_original_size result)
                                            (result_output_size result) (Some scale)
                                            (Some format_type) (Some processing_time) None;
                                     w3 = update_credits w2 api_key 1
                                 in ((True, Some output_data, Details_result result), w3))))
                    else
                      (let error_msg = (case result_error result of
                                          None \<Rightarrow> ''Erreur inconnue'' | Some e \<Rightarrow> e);
                           w2 = log_api_call w1 api_key ''api_error'' None None (Some scale)
                                  (Some format_type) (Some processing_time) (Some error_msg)
                       in ((False, None, Details_error error_msg), w2)))
             else
               (let error_msg = ''HTTP '' @ str_nat status_code @ '': '' @ text;
                    w2 = log_api_call w1 api_key ''http_error'' None None (Some scale)
                           (Some format_type) (Some processing_time) (Some error_msg)
                in ((False, None, Details_error error_msg), w2)))"

section \<open>Vocabulary of the properties\<close>

text \<open>
  Names for what the properties speak about; none of them is code of \<open>App.py\<close>.
  \<open>account_of\<close> is the first record of the account table bound to a key, the one
  \<open>records[0]\<close> reads when the query is served. \<open>stored\<close> is the log table after a create
  request and \<open>patched\<close> the account table after an update request, each unchanged when
  the store does not serve the request. \<open>credit_patch\<close> is the body
  \<open>{"Used_credits": new_used}\<close> and \<open>request_payload\<close> the body sent to the enhancement
  service. \<open>failure_entry\<close> and \<open>success_entry\<close> are the audit entries of a failed and of
  a successful call. \<open>logged w p entry\<close> is the world \<open>w\<close> after the enhancement request
  \<open>p\<close> and one create request for \<open>entry\<close> have been sent, and nothing else.
\<close>

definition account_of :: "world \<Rightarrow> string \<Rightarrow> airtable_record option" where
  "account_of w api_key = find (\<lambda>r. API_KEY (record_fields r) = Some api_key) (auth_table w)"

definition stored :: "world \<Rightarrow> log_entry \<Rightarrow> log_entry list" where
  "stored w entry = (if logs_create_fault w = None then logs_table w @ [entry] else logs_table w)"

definition credit_patch :: "int \<Rightarrow> account_fields" where
  "credit_patch new_used = \<lparr>API_KEY = None, Used_credits = Some new_used, Allowed_credits = None\<rparr>"

definition patched :: "world \<Rightarrow> string \<Rightarrow> account_fields \<Rightarrow> airtable_record list" where
  "patched w rid flds =
     (if auth_update_fault w = None then patch_table rid flds (auth_table w) else auth_table w)"

definition request_payload :: "byte list \<Rightarrow> int \<Rightarrow> string \<Rightarrow> payload" where
  "request_payload image_data scale format_type =
     \<lparr>payload_image = b64encode image_data, payload_scale = scale, payload_format = format_type\<rparr>"

definition failure_entry :: "world \<Rightarrow> string \<Rightarrow> string \<Rightarrow> int \<Rightarrow> string \<Rightarrow> string \<Rightarrow> log_entry" where
  "failure_entry w api_key status scale format_type error_msg =
     \<lparr>log_timestamp = clock_now w, log_api_key = api_key, log_status = status,
      log_original_size = None, log_output_size = None, log_scale = Some scale,
      log_format = Some format_type, log_processing_time = Some (clock_elapsed w),
      log_error_message = Some error_msg\<rparr>"

definition success_entry :: "world \<Rightarrow> string \<Rightarrow> int \<Rightarrow> string \<Rightarrow> api_result \<Rightarrow> log_entry" where
  "success_entry w api_key scale format_type result =
     \<lparr>log_timestamp = clock_now w, log_api_key = api_key, log_status = ''success'',
      log_original_size = str_if_truthy (result_original_size result),
      log_output_size = str_if_truthy (result_output_size result), log_scale = Some scale,
      log_format = Some format_type, log_processing_time = Some (clock_elapsed w),
      log_error_message = None\<rparr>"

definition logged :: "world \<Rightarrow> payload \<Rightarrow> log_entry \<Rightarrow> world" where
  "logged w p entry =
     w\<lparr>logs_table := stored w entry, sent := sent w @ [Enhance_POST p, Logs_POST entry]\<rparr>"

text \<open>A small world for the examples: one account with 3 of 5 credits used, bound to \<open>K1\<close>.\<close>

definition sample_account :: airtable_record where
  "sample_account =
     \<lparr>record_id = ''rec1'',
      record_fields = \<lparr>API_KEY = Some ''K1'', Used_credits = Some 3, Allowed_credits = Some 5\<rparr>\<rparr>"

definition sample_result :: api_result where
  "sample_result =
     \<lparr>result_success = Some True, result_output_image = Some ''aGVsbG8='',
      result_original_size = Some ''10x10'', result_output_size = Some ''40x40'',
      result_error = None\<rparr>"

definition sample_world :: world where
  "sample_world =
     \<lparr>auth_table = [sample_account], logs_table = [], auth_query_fault = None,
      auth_update_fault = None, logs_create_fault = None,
      enhancement_service = (\<lambda>p. Returned 200 (''ok'', Inr sample_result)),
      clock_now = ''2025-01-01T12:00:00'', clock_elapsed = 152, sent = []\<rparr>"

text \<open>Further sample data: an account without credit fields, and the sample world with
  another answer of the enhancement service.\<close>

definition bare_account :: airtable_record where
  "bare_account =
     \<lparr>record_id = ''rec7'',
      record_fields = \<lparr>API_KEY = Some ''K7'', Used_credits = None, Allowed_credits = None\<rparr>\<rparr>"

definition failing_world :: "api_body outcome \<Rightarrow> world" where
  "failing_world reply = sample_world\<lparr>enhancement_service := (\<lambda>p. reply)\<rparr>"

section \<open>Properties of the filename helper\<close>

lemma rfind_aux_absent: "c \<notin> set xs \<Longrightarrow> rfind_aux c xs i found = found"
  by (induction xs arbitrary: i found) auto

lemma rfind_aux_last:
  "c \<notin> set ys \<Longrightarrow> rfind_aux c (xs @ c # ys) i found = i + int (length xs)"
  by (induction xs arbitrary: i found) (auto simp: rfind_aux_absent)

lemma rfind_absent: "c \<notin> set p \<Longrightarrow> rfind p c = - 1"
  by (simp add: rfind_def rfind_aux_absent)

lemma rfind_last: "c \<notin> set ys \<Longrightarrow> rfind (xs @ c # ys) c = int (length xs)"
  by (simp add: rfind_def rfind_aux_last)

lemma skip_dots_found:
  "i \<le> j \<Longrightarrow> j < d \<Longrightarrow> p ! j \<noteq> CHR ''.'' \<Longrightarrow> skip_dots p i d = (take d p, drop d p)"
proof (induction p i d rule: skip_dots.induct)
  case (1 p filenameIndex dotIndex)
  show ?case
  proof (cases "p ! filenameIndex \<noteq> CHR ''.''")
    case True
    with "1.prems" show ?thesis
      by (simp add: skip_dots.simps [of p filenameIndex dotIndex])
  next
    case False
    with "1.prems" have "filenameIndex \<noteq> j" by auto
    with "1.prems" have le: "filenameIndex + 1 \<le> j" and lt: "filenameIndex < dotIndex" by auto
    from False lt have "skip_dots p filenameIndex dotIndex = skip_dots p (filenameIndex + 1) dotIndex"
      by (simp add: skip_dots.simps [of p filenameIndex dotIndex])
    also from "1.IH" [OF lt _ le "1.prems"(2,3)] False
    have "\<dots> = (take dotIndex p, drop dotIndex p)" by simp
    finally show ?thesis .
  qed
qed

lemma splitext_simple_name:
  assumes stem: "\<exists>c \<in> set stem. c \<noteq> CHR ''.''"
    and no_sep: "CHR ''/'' \<notin> set stem" "CHR ''/'' \<notin> set ext"
    and no_dot: "CHR ''.'' \<notin> set ext"
  shows "splitext (stem @ CHR ''.'' # ext) = (stem, CHR ''.'' # ext)"
proof -
  let ?p = "stem @ CHR ''.'' # ext"
  from stem obtain j where j: "j < length stem" "stem ! j \<noteq> CHR ''.''"
    by (auto simp: in_set_conv_nth)
  then have pj: "?p ! j \<noteq> CHR ''.''" by (simp add: nth_append)
  have sep: "rfind ?p CHR ''/'' = - 1"
    using no_sep by (simp add: rfind_absent)
  have dot: "rfind ?p CHR ''.'' = int (length stem)"
    using no_dot by (rule rfind_last)
  have "skip_dots ?p 0 (length stem) = (take (length stem) ?p, drop (length stem) ?p)"
    using j(1) pj by (intro skip_dots_found [where j = j]) auto
  then show ?thesis
    by (simp add: splitext_def sep dot)
qed

text \<open>
  C9. The filename helper is a total function of its three arguments: the result is the
  decimal scale, \<open>x_\<close>, the name without its extension, a dot, and \<open>jpg\<close> when the format
  is \<open>JPEG\<close> and \<open>png\<close> for every other format. The extension of the uploaded name plays
  no part: a plain name \<open>stem.ext\<close> (no slash, a stem that is not only dots, no dot in
  \<open>ext\<close>) gives the same result whatever \<open>ext\<close> is. The two examples of the
  specification evaluate as stated, the second on a name without extension.
\<close>

theorem get_correct_filename_convention:
  "get_correct_filename original_filename scale format_type =
     str_int scale @ ''x_'' @ fst (splitext original_filename) @ ''.'' @
       (if format_type = ''JPEG'' then ''jpg'' else ''png'')
   \<and> ((\<exists>c \<in> set stem. c \<noteq> CHR ''.'') \<and> CHR ''/'' \<notin> set stem \<and> CHR ''/'' \<notin> set ext
        \<and> CHR ''.'' \<notin> set ext \<longrightarrow>
      get_correct_filename (stem @ CHR ''.'' # ext) scale format_type =
        str_int scale @ ''x_'' @ stem @ ''.'' @ (if format_type = ''JPEG'' then ''jpg'' else ''png''))
   \<and> get_correct_filename ''photo.png'' 4 ''JPEG'' = ''4x_photo.jpg''
   \<and> get_correct_filename ''photo'' 2 ''PNG'' = ''2x_photo.png''"
proof (intro conjI impI)
  show "get_correct_filename original_filename scale format_type =
     str_int scale @ ''x_'' @ fst (splitext original_filename) @ ''.'' @
       (if format_type = ''JPEG'' then ''jpg'' else ''png'')"
    by (simp add: get_correct_filename_def)
next
  assume "(\<exists>c \<in> set stem. c \<noteq> CHR ''.'') \<and> CHR ''/'' \<notin> set stem \<and> CHR ''/'' \<notin> set ext
        \<and> CHR ''.'' \<notin> set ext"
  then have "splitext (stem @ CHR ''.'' # ext) = (stem, CHR ''.'' # ext)"
    by (intro splitext_simple_name) auto
  then show "get_correct_filename (stem @ CHR ''.'' # ext) scale format_type =
        str_int scale @ ''x_'' @ stem @ ''.'' @ (if format_type = ''JPEG'' then ''jpg'' else ''png'')"
    by (simp add: get_correct_filename_def)
next
  show "get_correct_filename ''photo.png'' 4 ''JPEG'' = ''4x_photo.jpg''"
    by (simp add: get_correct_filename_def splitext_def rfind_def skip_dots.simps
        str_int_def str_nat.simps digit_char_def)
next
  show "get_correct_filename ''photo'' 2 ''PNG'' = ''2x_photo.png''"
    by (simp add: get_correct_filename_def splitext_def rfind_def skip_dots.simps
        str_int_def str_nat.simps digit_char_def)
qed

theorem get_correct_filename_convention_witness:
  "get_correct_filename ''my.photo.jpeg'' 8 ''PNG'' = ''8x_my.photo.png''
   \<and> get_correct_filename ''my.photo.webp'' 8 ''PNG'' = ''8x_my.photo.png''"
  using get_correct_filename_convention [of "''x''" 8 "''PNG''" "''my.photo''" "''jpeg''"]
    get_correct_filename_convention [of "''x''" 8 "''PNG''" "''my.photo''" "''webp''"]
  by (simp add: str_int_def str_nat.simps digit_char_def)

section \<open>Base64: decoding an encoding gives the bytes back\<close>

lemma distinct_alphabet: "distinct b64_alphabet"
  unfolding b64_alphabet_def by simp

lemma length_alphabet: "length b64_alphabet = 64"
  unfolding b64_alphabet_def by simp

lemma index_of_nth: "distinct xs \<Longrightarrow> n < length xs \<Longrightarrow> index_of (xs ! n) xs = Some n"
proof (induction xs arbitrary: n)
  case Nil then show ?case by simp
next
  case (Cons a xs)
  then show ?case by (cases n) auto
qed

lemma a2b_b2a: "n < 64 \<Longrightarrow> table_a2b_base64 (table_b2a_base64 n) = Some n"
  by (simp add: table_a2b_base64_def table_b2a_base64_def index_of_nth distinct_alphabet length_alphabet)

lemma pad_not_in_alphabet: "CHR ''='' \<notin> set b64_alphabet"
  unfolding b64_alphabet_def by simp

lemma b2a_not_pad: "n < 64 \<Longrightarrow> table_b2a_base64 n \<noteq> CHR ''=''"
  using pad_not_in_alphabet by (metis length_alphabet nth_mem table_b2a_base64_def)

lemma alphabet_ascii: "\<forall>c \<in> set b64_alphabet. of_char c < (128::nat)"
  unfolding b64_alphabet_def by simp


lemma unat_byte_bound: "unat (a :: byte) < 256"
  using unsigned_less [of a, where ?'a = nat] by simp

lemma a2b_loop_valid:
  assumes "n < 64"
  shows "a2b_loop quad_pos leftchar pads bin_data (table_b2a_base64 n # rest) =
    (if quad_pos = 0 then a2b_loop 1 n 0 bin_data rest
     else if quad_pos = 1 then
       a2b_loop 2 (n mod 16) 0 (bin_data @ [of_nat (leftchar * 4 + n div 16)]) rest
     else if quad_pos = 2 then
       a2b_loop 3 (n mod 4) 0 (bin_data @ [of_nat (leftchar * 16 + n div 4)]) rest
     else a2b_loop 0 0 0 (bin_data @ [of_nat (leftchar * 64 + n)]) rest)"
  using assms by (simp add: a2b_b2a b2a_not_pad)

lemma sextet_bounds:
  assumes "x < 256" "y < 256" "z < (256::nat)"
  shows "x div 4 < 64" "x mod 4 * 16 + y div 16 < 64" "y mod 16 * 4 + z div 64 < 64"
    "z mod 64 < 64" "x mod 4 * 16 < 64" "y mod 16 * 4 < 64"
proof -
  show "x div 4 < 64" using assms by simp
  have a: "x mod 4 < 4" "y mod 16 < 16" by simp_all
  have b: "y div 16 < 16" "z div 64 < 4" using assms by simp_all
  show "x mod 4 * 16 + y div 16 < 64" using a b by linarith
  show "y mod 16 * 4 + z div 64 < 64" using a b by linarith
  show "z mod 64 < 64" by simp
  show "x mod 4 * 16 < 64" using a by linarith
  show "y mod 16 * 4 < 64" using a by linarith
qed

lemma regroup_first:
  assumes "y < (256::nat)"
  shows "x div 4 * 4 + (x mod 4 * 16 + y div 16) div 16 = x"
  using assms by (simp add: div_mult2_eq [symmetric])

lemma regroup_second:
  assumes "y < 256" "z < (256::nat)"
  shows "(x mod 4 * 16 + y div 16) mod 16 * 16 + (y mod 16 * 4 + z div 64) div 4 = y"
  using assms by (simp add: div_mult2_eq [symmetric])

lemma regroup_third:
  assumes "z < (256::nat)"
  shows "(y mod 16 * 4 + z div 64) mod 4 * 64 + z mod 64 = z"
  using assms by simp

lemma regroup_second_tail:
  assumes "y < (256::nat)"
  shows "(x mod 4 * 16 + y div 16) mod 16 * 16 + (y mod 16 * 4) div 4 = y"
  using assms by simp



declare a2b_loop.simps(2) [simp del]

lemma a2b_loop_quad:
  assumes "s0 < 64" "s1 < 64" "s2 < 64" "s3 < 64"
  shows "a2b_loop 0 leftchar pads bin_data
           (table_b2a_base64 s0 # table_b2a_base64 s1 # table_b2a_base64 s2 #
            table_b2a_base64 s3 # rest) =
         a2b_loop 0 0 0
           (bin_data @ [of_nat (s0 * 4 + s1 div 16), of_nat (s1 mod 16 * 16 + s2 div 4),
                        of_nat (s2 mod 4 * 64 + s3)]) rest"
  using assms by (simp add: a2b_loop_valid)

lemma a2b_loop_one_pad:
  assumes "s0 < 64" "s1 < 64" "s2 < 64"
  shows "a2b_loop 0 leftchar pads bin_data
           [table_b2a_base64 s0, table_b2a_base64 s1, table_b2a_base64 s2, CHR ''=''] =
         Inr (bin_data @ [of_nat (s0 * 4 + s1 div 16), of_nat (s1 mod 16 * 16 + s2 div 4)])"
  using assms by (simp add: a2b_loop_valid a2b_loop.simps(2) [of _ _ _ _ "CHR ''=''"])

lemma a2b_loop_two_pads:
  assumes "s0 < 64" "s1 < 64"
  shows "a2b_loop 0 leftchar pads bin_data
           [table_b2a_base64 s0, table_b2a_base64 s1, CHR ''='', CHR ''=''] =
         Inr (bin_data @ [of_nat (s0 * 4 + s1 div 16)])"
  using assms by (simp add: a2b_loop_valid a2b_loop.simps(2) [of _ _ _ _ "CHR ''=''"])

lemma a2b_loop_b2a_base64:
  "a2b_loop 0 leftchar pads bin_data (b2a_base64 s) = Inr (bin_data @ s)"
proof (induction s arbitrary: leftchar pads bin_data rule: b2a_base64.induct)
  case 1
  show ?case by simp
next
  case (2 a)
  note bd = sextet_bounds [OF unat_byte_bound [of a] unat_byte_bound [of a] unat_byte_bound [of a]]
  have first: "(of_nat (unat a div 4 * 4 + unat a mod 4 * 16 div 16) :: byte) = a"
    by simp
  show ?case
    unfolding b2a_base64.simps a2b_loop_two_pads [OF bd(1) bd(5)] first ..
next
  case (3 a b)
  note bd = sextet_bounds [OF unat_byte_bound [of a] unat_byte_bound [of b] unat_byte_bound [of b]]
  have first: "(of_nat (unat a div 4 * 4 + (unat a mod 4 * 16 + unat b div 16) div 16) :: byte) = a"
    unfolding regroup_first [OF unat_byte_bound] by simp
  have second: "(of_nat ((unat a mod 4 * 16 + unat b div 16) mod 16 * 16 + unat b mod 16 * 4 div 4)
      :: byte) = b"
    unfolding regroup_second_tail [OF unat_byte_bound] by simp
  show ?case
    unfolding b2a_base64.simps a2b_loop_one_pad [OF bd(1) bd(2) bd(6)] first second
    by simp
next
  case (4 a b c rest)
  note bd = sextet_bounds [OF unat_byte_bound [of a] unat_byte_bound [of b] unat_byte_bound [of c]]
  have first: "(of_nat (unat a div 4 * 4 + (unat a mod 4 * 16 + unat b div 16) div 16) :: byte) = a"
    unfolding regroup_first [OF unat_byte_bound] by simp
  have second: "(of_nat ((unat a mod 4 * 16 + unat b div 16) mod 16 * 16
      + (unat b mod 16 * 4 + unat c div 64) div 4) :: byte) = b"
    unfolding regroup_second [OF unat_byte_bound unat_byte_bound] by simp
  have third: "(of_nat ((unat b mod 16 * 4 + unat c div 64) mod 4 * 64 + unat c mod 64) :: byte) = c"
    unfolding regroup_third [OF unat_byte_bound] by simp
  show ?case
    unfolding b2a_base64.simps append_Cons append_Nil a2b_loop_quad [OF bd(1-4)] "4.IH"
      first second third
    by simp
qed

lemma b2a_base64_ascii: "c \<in> set (b2a_base64 s) \<Longrightarrow> of_char c < (128::nat)"
proof (induction s rule: b2a_base64.induct)
  case 1
  then show ?case by simp
next
  case (2 a)
  note bd = sextet_bounds [OF unat_byte_bound [of a] unat_byte_bound [of a] unat_byte_bound [of a]]
  from 2 bd show ?case
    using alphabet_ascii by (auto simp: table_b2a_base64_def length_alphabet)
next
  case (3 a b)
  note bd = sextet_bounds [OF unat_byte_bound [of a] unat_byte_bound [of b] unat_byte_bound [of b]]
  from 3 bd show ?case
    using alphabet_ascii by (auto simp: table_b2a_base64_def length_alphabet)
next
  case (4 a b c rest)
  note bd = sextet_bounds [OF unat_byte_bound [of a] unat_byte_bound [of b] unat_byte_bound [of c]]
  from 4 bd show ?case
    using alphabet_ascii by (auto simp: table_b2a_base64_def length_alphabet)
qed

lemma b64decode_b64encode: "b64decode (b64encode s) = Inr s"
  using b2a_base64_ascii [of _ s]
  by (auto simp: b64decode_def b64encode_def a2b_loop_b2a_base64 not_le)

section \<open>The store client, the ledger and the logger in closed form\<close>

lemma key_filter_inject: "key_filter a = key_filter b \<longleftrightarrow> a = b"
  by (simp add: key_filter_def)

lemma key_filter_nonempty: "key_filter a \<noteq> []"
  by (simp add: key_filter_def)

lemma formula_holds_key_filter:
  "formula_holds (key_filter k) = (\<lambda>r. API_KEY (record_fields r) = Some k)"
  by (rule ext) (auto simp: formula_holds_def key_filter_inject split: option.splits)

lemma get_records_served:
  assumes "auth_query_fault w = None"
  shows "get_records w (Some (key_filter k)) =
    (filter (\<lambda>r. API_KEY (record_fields r) = Some k) (auth_table w),
     w\<lparr>sent := sent w @ [Auth_GET (Some (key_filter k))]\<rparr>)"
  using assms
  by (simp add: get_records_def airtable_select_def key_filter_nonempty raise_for_status_def Let_def
      formula_holds_key_filter)

lemma get_records_fault:
  assumes "auth_query_fault w = Some f"
  shows "get_records w (Some (key_filter k)) =
    ([], w\<lparr>sent := sent w @ [Auth_GET (Some (key_filter k))]\<rparr>)"
  using assms
  by (cases f) (simp_all add: get_records_def airtable_select_def key_filter_nonempty Let_def)

lemma filter_find_None: "find P xs = None \<Longrightarrow> filter P xs = []"
  by (induction xs) (auto split: if_splits)

lemma filter_find_Some: "find P xs = Some x \<Longrightarrow> \<exists>rest. filter P xs = x # rest"
  by (induction xs) (auto split: if_splits)

lemma create_record_world:
  "snd (create_record w entry) =
     w\<lparr>logs_table := stored w entry, sent := sent w @ [Logs_POST entry]\<rparr>"
  by (simp add: create_record_def airtable_create_def stored_def Let_def
      split: option.splits fault.splits)

lemma patch_table_no_record:
  "find (\<lambda>r. record_id r = rid) table = None \<Longrightarrow> patch_table rid flds table = table"
  by (induction table) (auto simp: patch_table_def split: if_splits)

lemma update_record_world:
  "snd (update_record w rid flds) =
     w\<lparr>auth_table := patched w rid flds, sent := sent w @ [Auth_PATCH rid flds]\<rparr>"
  by (simp add: update_record_def airtable_update_def patched_def Let_def patch_table_no_record
      split: option.splits fault.splits)

lemma update_credits_found:
  assumes "auth_query_fault w = None" and "account_of w api_key = Some r"
  shows "update_credits w api_key increment =
     w\<lparr>auth_table :=
          patched w (record_id r)
            (credit_patch (get_or_zero (Used_credits (record_fields r)) + increment)),
       sent := sent w @
         [Auth_GET (Some (key_filter api_key)),
          Auth_PATCH (record_id r)
            (credit_patch (get_or_zero (Used_credits (record_fields r)) + increment))]\<rparr>"
proof -
  from assms(2) obtain rest where
    "filter (\<lambda>r. API_KEY (record_fields r) = Some api_key) (auth_table w) = r # rest"
    unfolding account_of_def by (blast dest: filter_find_Some)
  then show ?thesis
    by (simp add: update_credits_def get_records_served [OF assms(1)] update_record_world
        patched_def credit_patch_def Let_def)
qed

lemma update_credits_not_found:
  assumes "auth_query_fault w \<noteq> None \<or> account_of w api_key = None"
  shows "update_credits w api_key increment =
     w\<lparr>sent := sent w @ [Auth_GET (Some (key_filter api_key))]\<rparr>"
proof (cases "auth_query_fault w")
  case None
  with assms have "filter (\<lambda>r. API_KEY (record_fields r) = Some api_key) (auth_table w) = []"
    unfolding account_of_def by (auto dest: filter_find_None)
  then show ?thesis
    by (simp add: update_credits_def get_records_served [OF None] Let_def)
next
  case (Some f)
  then show ?thesis
    by (simp add: update_credits_def get_records_fault [OF Some] Let_def)
qed

lemma find_patch_table:
  assumes "find (\<lambda>r. API_KEY (record_fields r) = Some k) table = Some r"
    and "API_KEY flds = None"
  shows "find (\<lambda>r. API_KEY (record_fields r) = Some k) (patch_table (record_id r) flds table) =
     Some (r\<lparr>record_fields := merge_fields (record_fields r) flds\<rparr>)"
  using assms
  by (induction table) (auto simp: patch_table_def merge_fields_def split: if_splits)

lemma log_api_call_world:
  "log_api_call w api_key status original_size output_size scale format_type processing_time
     error_message =
   (let entry = \<lparr>log_timestamp = clock_now w, log_api_key = api_key, log_status = status,
        log_original_size = str_if_truthy original_size,
        log_output_size = str_if_truthy output_size, log_scale = scale,
        log_format = format_type, log_processing_time = processing_time,
        log_error_message = error_message\<rparr>
    in w\<lparr>logs_table := stored w entry, sent := sent w @ [Logs_POST entry]\<rparr>)"
  by (simp add: log_api_call_def create_record_world Let_def)

lemma on_exception_world:
  "on_exception w api_key scale format_type error_msg =
     ((False, None, Details_error error_msg),
      w\<lparr>logs_table := stored w (failure_entry w api_key ''exception'' scale format_type error_msg),
        sent := sent w @
          [Logs_POST (failure_entry w api_key ''exception'' scale format_type error_msg)]\<rparr>)"
  by (simp add: on_exception_def log_api_call_world failure_entry_def str_if_truthy_def Let_def)

lemma check_found:
  assumes "auth_query_fault w = None" and "account_of w api_key = Some r"
  shows "check_api_key_credits w api_key =
     (let used = get_or_zero (Used_credits (record_fields r));
          allowed = get_or_zero (Allowed_credits (record_fields r))
      in if allowed - used \<le> 0 then
           (Some False,
            ''Plus de cr'' @ [e_acute] @ ''dits restants (utilis'' @ [e_acute] @ ''s: '' @
            str_int used @ ''/'' @ str_int allowed @ '')'')
         else
           (Some True,
            str_int (allowed - used) @ '' cr'' @ [e_acute] @ ''dits restants (utilis'' @
            [e_acute] @ ''s: '' @ str_int used @ ''/'' @ str_int allowed @ '')''),
      w\<lparr>sent := sent w @ [Auth_GET (Some (key_filter api_key))]\<rparr>)"
proof -
  from assms(2) obtain rest where
    "filter (\<lambda>r. API_KEY (record_fields r) = Some api_key) (auth_table w) = r # rest"
    unfolding account_of_def by (blast dest: filter_find_Some)
  then show ?thesis
    by (simp add: check_api_key_credits_def get_records_served [OF assms(1)] Let_def)
qed

lemma check_not_found:
  assumes "auth_query_fault w \<noteq> None \<or> account_of w api_key = None"
  shows "check_api_key_credits w api_key =
     ((None, ''Cl'' @ [e_acute] @ '' API non trouv'' @ [e_acute] @ ''e''),
      w\<lparr>sent := sent w @ [Auth_GET (Some (key_filter api_key))]\<rparr>)"
proof (cases "auth_query_fault w")
  case None
  with assms have "filter (\<lambda>r. API_KEY (record_fields r) = Some api_key) (auth_table w) = []"
    unfolding account_of_def by (auto dest: filter_find_None)
  then show ?thesis
    by (simp add: check_api_key_credits_def get_records_served [OF None] Let_def)
next
  case (Some f)
  then show ?thesis
    by (simp add: check_api_key_credits_def get_records_fault [OF Some] Let_def)
qed

lemma on_exception_logged:
  "on_exception (w\<lparr>sent := sent w @ [Enhance_POST p]\<rparr>) api_key scale format_type error_msg =
     ((False, None, Details_error error_msg),
      logged w p (failure_entry w api_key ''exception'' scale format_type error_msg))"
  by (simp add: on_exception_world logged_def failure_entry_def stored_def)

lemma enhance_image_raised:
  assumes "enhancement_service w (request_payload image_data scale format_type) = Raised e"
  shows "enhance_image w image_data api_key scale format_type =
     ((False, None, Details_error e),
      logged w (request_payload image_data scale format_type)
        (failure_entry w api_key ''exception'' scale format_type e))"
  using assms
  by (simp add: enhance_image_def on_exception_logged request_payload_def Let_def)

lemma enhance_image_json_raised:
  assumes "enhancement_service w (request_payload image_data scale format_type) =
      Returned 200 (text, Inl e)"
  shows "enhance_image w image_data api_key scale format_type =
     ((False, None, Details_error e),
      logged w (request_payload image_data scale format_type)
        (failure_entry w api_key ''exception'' scale format_type e))"
  using assms
  by (simp add: enhance_image_def on_exception_logged request_payload_def Let_def)

lemma enhance_image_no_output_image:
  assumes "enhancement_service w (request_payload image_data scale format_type) =
      Returned 200 (text, Inr result)"
    and "result_success result = Some True"
    and "result_output_image result = None"
  shows "enhance_image w image_data api_key scale format_type =
     ((False, None, Details_error ([quote] @ ''output_image'' @ [quote])),
      logged w (request_payload image_data scale format_type)
        (failure_entry w api_key ''exception'' scale format_type
           ([quote] @ ''output_image'' @ [quote])))"
  using assms
  by (simp add: enhance_image_def on_exception_logged request_payload_def Let_def)

lemma enhance_image_bad_base64:
  assumes "enhancement_service w (request_payload image_data scale format_type) =
      Returned 200 (text, Inr result)"
    and "result_success result = Some True"
    and "result_output_image result = Some output_image"
    and "b64decode output_image = Inl err"
  shows "enhance_image w image_data api_key scale format_type =
     ((False, None, Details_error (str_binascii_error err)),
      logged w (request_payload image_data scale format_type)
        (failure_entry w api_key ''exception'' scale format_type (str_binascii_error err)))"
  using assms
  by (simp add: enhance_image_def on_exception_logged request_payload_def Let_def)

lemma enhance_image_http_error:
  assumes "enhancement_service w (request_payload image_data scale format_type) =
      Returned status_code (text, json)"
    and "status_code \<noteq> 200"
  shows "enhance_image w image_data api_key scale format_type =
     ((False, None, Details_error (''HTTP '' @ str_nat status_code @ '': '' @ text)),
      logged w (request_payload image_data scale format_type)
        (failure_entry w api_key ''http_error'' scale format_type
           (''HTTP '' @ str_nat status_code @ '': '' @ text)))"
  using assms
  by (simp add: enhance_image_def log_api_call_world request_payload_def Let_def
      failure_entry_def stored_def str_if_truthy_def logged_def)

lemma enhance_image_api_error:
  assumes "enhancement_service w (request_payload image_data scale format_type) =
      Returned 200 (text, Inr result)"
    and "result_success result \<noteq> Some True"
  shows "enhance_image w image_data api_key scale format_type =
     ((False, None,
       Details_error (case result_error result of None \<Rightarrow> ''Erreur inconnue'' | Some e \<Rightarrow> e)),
      logged w (request_payload image_data scale format_type)
        (failure_entry w api_key ''api_error'' scale format_type
           (case result_error result of None \<Rightarrow> ''Erreur inconnue'' | Some e \<Rightarrow> e)))"
  using assms
  by (simp add: enhance_image_def log_api_call_world request_payload_def Let_def
      failure_entry_def stored_def str_if_truthy_def logged_def)

lemma enhance_image_success:
  assumes "enhancement_service w (request_payload image_data scale format_type) =
      Returned 200 (text, Inr result)"
    and "result_success result = Some True"
    and "result_output_image result = Some output_image"
    and "b64decode output_image = Inr output_data"
  shows "enhance_image w image_data api_key scale format_type =
     ((True, Some output_data, Details_result result),
      update_credits
        (logged w (request_payload image_data scale format_type)
           (success_entry w api_key scale format_type result))
        api_key 1)"
  using assms
  by (simp add: enhance_image_def log_api_call_world request_payload_def Let_def
      success_entry_def stored_def logged_def)

lemma enhance_image_failed:
  assumes "\<not> fst (fst (enhance_image w image_data api_key scale format_type))"
  shows "\<exists>status msg.
     (status = ''exception'' \<or> status = ''http_error'' \<or> status = ''api_error'') \<and>
     enhance_image w image_data api_key scale format_type =
       ((False, None, Details_error msg),
        logged w (request_payload image_data scale format_type)
          (failure_entry w api_key status scale format_type msg))"
proof (cases "enhancement_service w (request_payload image_data scale format_type)")
  case (Raised e)
  from enhance_image_raised [OF this] show ?thesis by blast
next
  case (Returned status_code body)
  obtain body_text json where body: "body = (body_text, json)" by (cases body)
  show ?thesis
  proof (cases "status_code = 200")
    case False
    from enhance_image_http_error [OF Returned [unfolded body] False] show ?thesis by blast
  next
    case True
    note svc = Returned [unfolded body True]
    show ?thesis
    proof (cases json)
      case (Inl e)
      from enhance_image_json_raised [OF svc [unfolded Inl]] show ?thesis by blast
    next
      case (Inr result)
      note svc' = svc [unfolded Inr]
      show ?thesis
      proof (cases "result_success result = Some True")
        case False
        from enhance_image_api_error [OF svc' False] show ?thesis by blast
      next
        case ok: True
        show ?thesis
        proof (cases "result_output_image result")
          case None
          from enhance_image_no_output_image [OF svc' ok None] show ?thesis by blast
        next
          case (Some output_image)
          show ?thesis
          proof (cases "b64decode output_image")
            case (Inl err)
            from enhance_image_bad_base64 [OF svc' ok Some Inl] show ?thesis by blast
          next
            case (Inr output_data)
            from enhance_image_success [OF svc' ok Some Inr] assms show ?thesis by simp
          qed
        qed
      qed
    qed
  qed
qed

section \<open>Facts about the sample world and the requests of a call\<close>

lemma str_int_digit: "0 \<le> i \<Longrightarrow> i < 10 \<Longrightarrow> str_int i = [digit_char (nat i)]"
  by (simp add: str_int_def str_nat.simps)

lemma account_of_sample: "account_of sample_world ''K1'' = Some sample_account"
  by (simp add: account_of_def sample_world_def sample_account_def)

lemma merge_credit_patch:
  "merge_fields flds (credit_patch n) = flds\<lparr>Used_credits := Some n\<rparr>"
  by (simp add: merge_fields_def credit_patch_def)

lemma account_of_patched:
  assumes "auth_update_fault w = None" and "account_of w api_key = Some r"
  shows "find (\<lambda>r. API_KEY (record_fields r) = Some api_key)
           (patched w (record_id r) (credit_patch n)) =
         Some (r\<lparr>record_fields := (record_fields r)\<lparr>Used_credits := Some n\<rparr>\<rparr>)"
proof -
  have "API_KEY (credit_patch n) = None"
    by (simp add: credit_patch_def)
  from find_patch_table [OF assms(2) [unfolded account_of_def] this] assms(1)
  show ?thesis
    by (simp add: patched_def merge_credit_patch)
qed

lemma account_of_update_credits:
  assumes "auth_query_fault w = None" and "auth_update_fault w = None"
    and "account_of w api_key = Some r"
  shows "account_of (update_credits w api_key increment) api_key =
     Some (r\<lparr>record_fields := (record_fields r)
             \<lparr>Used_credits := Some (get_or_zero (Used_credits (record_fields r)) + increment)\<rparr>\<rparr>)"
  by (simp add: update_credits_found [OF assms(1,3)] account_of_def
      account_of_patched [OF assms(2,3)])

lemma b64encode_hello: "b64encode [104, 101, 108, 108, 111] = ''aGVsbG8=''"
  by (simp add: b64encode_def table_b2a_base64_def b64_alphabet_def)

lemma b64decode_hello: "b64decode ''aGVsbG8='' = Inr [104, 101, 108, 108, 111]"
  using b64decode_b64encode [of "[104, 101, 108, 108, 111]"] by (simp only: b64encode_hello)

lemma sample_service:
  "enhancement_service sample_world p = Returned 200 (''ok'', Inr sample_result)"
  by (simp add: sample_world_def)

lemma logged_fields:
  "sent (logged w p entry) = sent w @ [Enhance_POST p, Logs_POST entry]"
  "logs_table (logged w p entry) = stored w entry"
  "auth_table (logged w p entry) = auth_table w"
  "auth_query_fault (logged w p entry) = auth_query_fault w"
  "auth_update_fault (logged w p entry) = auth_update_fault w"
  "account_of (logged w p entry) k = account_of w k"
  by (simp_all add: logged_def account_of_def)

lemma sent_update_credits:
  "sent (update_credits w api_key increment) =
     sent w @ [Auth_GET (Some (key_filter api_key))] @
     (case (if auth_query_fault w = None then account_of w api_key else None) of
        None \<Rightarrow> []
      | Some r \<Rightarrow>
          [Auth_PATCH (record_id r)
             (credit_patch (get_or_zero (Used_credits (record_fields r)) + increment))])"
proof (cases "auth_query_fault w = None \<and> account_of w api_key \<noteq> None")
  case True
  then obtain r where "auth_query_fault w = None" "account_of w api_key = Some r" by auto
  then show ?thesis by (simp add: update_credits_found)
next
  case False
  then have "auth_query_fault w \<noteq> None \<or> account_of w api_key = None" by auto
  from update_credits_not_found [OF this] False show ?thesis by auto
qed

lemma logs_table_update_credits:
  "logs_table (update_credits w api_key increment) = logs_table w"
proof (cases "auth_query_fault w = None \<and> account_of w api_key \<noteq> None")
  case True
  then obtain r where "auth_query_fault w = None" "account_of w api_key = Some r" by auto
  then show ?thesis by (simp add: update_credits_found)
next
  case False
  then have "auth_query_fault w \<noteq> None \<or> account_of w api_key = None" by auto
  from update_credits_not_found [OF this] show ?thesis by simp
qed

lemma enhance_image_failed_requests:
  assumes "\<not> fst (fst (enhance_image w image_data api_key scale format_type))"
  shows "(\<exists>entry. sent (snd (enhance_image w image_data api_key scale format_type)) =
            sent w @ [Enhance_POST (request_payload image_data scale format_type),
                      Logs_POST entry])
     \<and> auth_table (snd (enhance_image w image_data api_key scale format_type)) = auth_table w"
  using enhance_image_failed [OF assms] by (auto simp: logged_fields)

section \<open>The successful call\<close>

text \<open>
  C1, as stated, fails on the credit: the service answers 200 with a true \<open>success\<close> and
  the base64 of five bytes, the account of \<open>K1\<close> has 3 used credits, and the store refuses
  the update with status 500. \<open>update_record\<close> catches the error, \<open>enhance_image\<close>
  returns \<open>True\<close> with the five bytes, and the account still has 3 used credits.
\<close>

theorem enhance_image_increment_counterexample:
  "fst (enhance_image (sample_world\<lparr>auth_update_fault := Some (Error_status 500)\<rparr>)
          [] ''K1'' 4 ''JPEG'') =
     (True, Some [104, 101, 108, 108, 111], Details_result sample_result)
   \<and> account_of (sample_world\<lparr>auth_update_fault := Some (Error_status 500)\<rparr>) ''K1'' =
       Some sample_account
   \<and> account_of
         (snd (enhance_image (sample_world\<lparr>auth_update_fault := Some (Error_status 500)\<rparr>)
                 [] ''K1'' 4 ''JPEG'')) ''K1'' = Some sample_account
   \<and> Used_credits (record_fields sample_account) = Some 3"
proof -
  let ?w = "sample_world\<lparr>auth_update_fault := Some (Error_status 500)\<rparr>"
  have svc: "enhancement_service ?w (request_payload [] 4 ''JPEG'') =
      Returned 200 (''ok'', Inr sample_result)"
    by (simp add: sample_world_def)
  have res: "result_success sample_result = Some True"
    "result_output_image sample_result = Some ''aGVsbG8=''"
    by (simp_all add: sample_result_def)
  note run = enhance_image_success [OF svc res b64decode_hello, of "''K1''"]
  have acc: "account_of ?w ''K1'' = Some sample_account"
    by (simp add: account_of_def sample_world_def sample_account_def)
  let ?l = "logged ?w (request_payload [] 4 ''JPEG'')
      (success_entry ?w ''K1'' 4 ''JPEG'' sample_result)"
  have q: "auth_query_fault ?l = None" and found: "account_of ?l ''K1'' = Some sample_account"
    by (simp_all add: logged_fields acc) (simp add: sample_world_def)
  have refused: "auth_update_fault ?l = Some (Error_status 500)"
    by (simp add: logged_fields)
  have "auth_table (update_credits ?l ''K1'' 1) = auth_table ?l"
    by (simp add: update_credits_found [OF q found] patched_def refused)
  then have "account_of (update_credits ?l ''K1'' 1) ''K1'' = account_of ?l ''K1''"
    by (simp add: account_of_def)
  with found have after: "account_of (snd (enhance_image ?w [] ''K1'' 4 ''JPEG'')) ''K1'' =
      Some sample_account"
    by (simp add: run)
  have used: "Used_credits (record_fields sample_account) = Some 3"
    by (simp add: sample_account_def)
  from run acc after used show ?thesis by simp
qed

text \<open>
  C1, amended. When the enhancement service answers 200 with a true \<open>success\<close> and an
  \<open>output_image\<close> that is the base64 encoding of some bytes, \<open>enhance_image\<close> returns
  \<open>True\<close> with exactly those bytes (hence as many) and the service's object. It sends one
  create request for an audit entry of status \<open>success\<close>, which the log table holds
  afterwards when the store serves the request, and then runs \<open>update_credits\<close> once with
  increment 1: the account query, and for the account found the update to
  \<open>Used_credits + 1\<close>; when both requests are served the account's used credits have grown
  by exactly 1. A call that returns \<open>False\<close> sends the enhancement request and one create
  request only, so no credit request, and leaves the account table as it was.
\<close>

theorem enhance_image_success_path:
  assumes "enhancement_service w (request_payload image_data scale format_type) =
      Returned 200 (body_text, Inr result)"
    and "result_success result = Some True"
    and "result_output_image result = Some (b64encode output_bytes)"
  shows "fst (enhance_image w image_data api_key scale format_type) =
       (True, Some output_bytes, Details_result result)
   \<and> sent (snd (enhance_image w image_data api_key scale format_type)) =
       sent w @
       [Enhance_POST (request_payload image_data scale format_type),
        Logs_POST (success_entry w api_key scale format_type result),
        Auth_GET (Some (key_filter api_key))] @
       (case (if auth_query_fault w = None then account_of w api_key else None) of
          None \<Rightarrow> []
        | Some r \<Rightarrow>
            [Auth_PATCH (record_id r)
               (credit_patch (get_or_zero (Used_credits (record_fields r)) + 1))])
   \<and> logs_table (snd (enhance_image w image_data api_key scale format_type)) =
       stored w (success_entry w api_key scale format_type result)
   \<and> (auth_query_fault w = None \<and> auth_update_fault w = None \<and> account_of w api_key = Some r
        \<longrightarrow>
        account_of (snd (enhance_image w image_data api_key scale format_type)) api_key =
          Some (r\<lparr>record_fields := (record_fields r)
                  \<lparr>Used_credits := Some (get_or_zero (Used_credits (record_fields r)) + 1)\<rparr>\<rparr>))
   \<and> (\<not> fst (fst (enhance_image v data key sc fmt)) \<longrightarrow>
        (\<exists>entry. sent (snd (enhance_image v data key sc fmt)) =
            sent v @ [Enhance_POST (request_payload data sc fmt), Logs_POST entry])
        \<and> auth_table (snd (enhance_image v data key sc fmt)) = auth_table v)"
proof -
  note run = enhance_image_success [OF assms(1,2,3) b64decode_b64encode]
  have "fst (enhance_image w image_data api_key scale format_type) =
       (True, Some output_bytes, Details_result result)"
    by (simp add: run)
  moreover have "sent (snd (enhance_image w image_data api_key scale format_type)) =
       sent w @
       [Enhance_POST (request_payload image_data scale format_type),
        Logs_POST (success_entry w api_key scale format_type result),
        Auth_GET (Some (key_filter api_key))] @
       (case (if auth_query_fault w = None then account_of w api_key else None) of
          None \<Rightarrow> []
        | Some r \<Rightarrow>
            [Auth_PATCH (record_id r)
               (credit_patch (get_or_zero (Used_credits (record_fields r)) + 1))])"
    by (simp add: run sent_update_credits logged_fields)
  moreover have "logs_table (snd (enhance_image w image_data api_key scale format_type)) =
       stored w (success_entry w api_key scale format_type result)"
    by (simp add: run logs_table_update_credits logged_fields)
  moreover have "account_of (snd (enhance_image w image_data api_key scale format_type)) api_key =
          Some (r\<lparr>record_fields := (record_fields r)
                  \<lparr>Used_credits := Some (get_or_zero (Used_credits (record_fields r)) + 1)\<rparr>\<rparr>)"
    if "auth_query_fault w = None \<and> auth_update_fault w = None \<and> account_of w api_key = Some r"
    using that by (simp add: run account_of_update_credits logged_fields)
  moreover have "(\<exists>entry. sent (snd (enhance_image v data key sc fmt)) =
            sent v @ [Enhance_POST (request_payload data sc fmt), Logs_POST entry])
        \<and> auth_table (snd (enhance_image v data key sc fmt)) = auth_table v"
    if "\<not> fst (fst (enhance_image v data key sc fmt))"
    using that by (rule enhance_image_failed_requests)
  ultimately show ?thesis by blast
qed

theorem enhance_image_success_path_witness:
  "fst (enhance_image sample_world [] ''K1'' 4 ''JPEG'') =
     (True, Some [104, 101, 108, 108, 111], Details_result sample_result)
   \<and> sent (snd (enhance_image sample_world [] ''K1'' 4 ''JPEG'')) =
       [Enhance_POST (request_payload [] 4 ''JPEG''),
        Logs_POST (success_entry sample_world ''K1'' 4 ''JPEG'' sample_result),
        Auth_GET (Some (key_filter ''K1'')),
        Auth_PATCH ''rec1'' (credit_patch 4)]
   \<and> logs_table (snd (enhance_image sample_world [] ''K1'' 4 ''JPEG'')) =
       [success_entry sample_world ''K1'' 4 ''JPEG'' sample_result]
   \<and> account_of (snd (enhance_image sample_world [] ''K1'' 4 ''JPEG'')) ''K1'' =
       Some (sample_account\<lparr>record_fields :=
               (record_fields sample_account)\<lparr>Used_credits := Some 4\<rparr>\<rparr>)"
proof -
  have world: "auth_query_fault sample_world = None" "auth_update_fault sample_world = None"
    "logs_create_fault sample_world = None" "sent sample_world = []"
    "logs_table sample_world = []"
    by (simp_all add: sample_world_def)
  have res: "result_success sample_result = Some True"
    "result_output_image sample_result = Some (b64encode [104, 101, 108, 108, 111])"
    by (simp_all add: sample_result_def b64encode_hello)
  note th = enhance_image_success_path
    [where w = sample_world and image_data = "[]" and scale = 4 and format_type = "''JPEG''"
      and api_key = "''K1''" and r = sample_account, OF sample_service res]
  note c1 = th [THEN conjunct1]
  note c2 = th [THEN conjunct2, THEN conjunct1]
  note c3 = th [THEN conjunct2, THEN conjunct2, THEN conjunct1]
  note c4 = th [THEN conjunct2, THEN conjunct2, THEN conjunct2, THEN conjunct1]
  have id: "record_id sample_account = ''rec1''"
    "get_or_zero (Used_credits (record_fields sample_account)) = 3"
    by (simp_all add: sample_account_def get_or_zero_def)
  from c1 c2 c3 c4 show ?thesis
    by (simp add: world account_of_sample stored_def id)
qed

section \<open>The failing calls\<close>

text \<open>
  C2. A call of \<open>enhance_image\<close> that fails sends, after the enhancement request, exactly
  one create request for an audit entry and no request to the account table, which stays
  as it was. The status of the entry is \<open>exception\<close> when the request raised,
  \<open>http_error\<close> when the status code is not 200, and \<open>api_error\<close> when the answer is 200
  without a true \<open>success\<close>; every other failing call (an unreadable body, a missing or
  undecodable \<open>output_image\<close>) is logged under one of the three. The log table holds the
  entry afterwards when the store serves the create request.
\<close>

theorem enhance_image_failure_paths:
  "(enhancement_service w (request_payload image_data scale format_type) = Raised e \<longrightarrow>
      enhance_image w image_data api_key scale format_type =
        ((False, None, Details_error e),
         logged w (request_payload image_data scale format_type)
           (failure_entry w api_key ''exception'' scale format_type e)))
   \<and> (enhancement_service w (request_payload image_data scale format_type) =
          Returned status_code (body_text, json) \<and> status_code \<noteq> 200 \<longrightarrow>
      enhance_image w image_data api_key scale format_type =
        ((False, None, Details_error (''HTTP '' @ str_nat status_code @ '': '' @ body_text)),
         logged w (request_payload image_data scale format_type)
           (failure_entry w api_key ''http_error'' scale format_type
              (''HTTP '' @ str_nat status_code @ '': '' @ body_text))))
   \<and> (enhancement_service w (request_payload image_data scale format_type) =
          Returned 200 (body_text, Inr result) \<and> result_success result \<noteq> Some True \<longrightarrow>
      enhance_image w image_data api_key scale format_type =
        ((False, None,
          Details_error (case result_error result of None \<Rightarrow> ''Erreur inconnue'' | Some m \<Rightarrow> m)),
         logged w (request_payload image_data scale format_type)
           (failure_entry w api_key ''api_error'' scale format_type
              (case result_error result of None \<Rightarrow> ''Erreur inconnue'' | Some m \<Rightarrow> m))))
   \<and> (\<not> fst (fst (enhance_image w image_data api_key scale format_type)) \<longrightarrow>
        (\<exists>status msg.
           (status = ''exception'' \<or> status = ''http_error'' \<or> status = ''api_error'') \<and>
           enhance_image w image_data api_key scale format_type =
             ((False, None, Details_error msg),
              logged w (request_payload image_data scale format_type)
                (failure_entry w api_key status scale format_type msg))))
   \<and> sent (logged w p entry) = sent w @ [Enhance_POST p, Logs_POST entry]
   \<and> logs_table (logged w p entry) =
       (if logs_create_fault w = None then logs_table w @ [entry] else logs_table w)
   \<and> auth_table (logged w p entry) = auth_table w
   \<and> log_status (failure_entry w api_key status scale format_type msg) = status"
proof (intro conjI impI)
  assume "enhancement_service w (request_payload image_data scale format_type) = Raised e"
  then show "enhance_image w image_data api_key scale format_type =
        ((False, None, Details_error e),
         logged w (request_payload image_data scale format_type)
           (failure_entry w api_key ''exception'' scale format_type e))"
    by (rule enhance_image_raised)
next
  assume "enhancement_service w (request_payload image_data scale format_type) =
          Returned status_code (body_text, json) \<and> status_code \<noteq> 200"
  then show "enhance_image w image_data api_key scale format_type =
        ((False, None, Details_error (''HTTP '' @ str_nat status_code @ '': '' @ body_text)),
         logged w (request_payload image_data scale format_type)
           (failure_entry w api_key ''http_error'' scale format_type
              (''HTTP '' @ str_nat status_code @ '': '' @ body_text)))"
    by (intro enhance_image_http_error) auto
next
  assume "enhancement_service w (request_payload image_data scale format_type) =
          Returned 200 (body_text, Inr result) \<and> result_success result \<noteq> Some True"
  then show "enhance_image w image_data api_key scale format_type =
        ((False, None,
          Details_error (case result_error result of None \<Rightarrow> ''Erreur inconnue'' | Some m \<Rightarrow> m)),
         logged w (request_payload image_data scale format_type)
           (failure_entry w api_key ''api_error'' scale format_type
              (case result_error result of None \<Rightarrow> ''Erreur inconnue'' | Some m \<Rightarrow> m)))"
    by (intro enhance_image_api_error) auto
next
  assume "\<not> fst (fst (enhance_image w image_data api_key scale format_type))"
  then show "\<exists>status msg.
           (status = ''exception'' \<or> status = ''http_error'' \<or> status = ''api_error'') \<and>
           enhance_image w image_data api_key scale format_type =
             ((False, None, Details_error msg),
              logged w (request_payload image_data scale format_type)
                (failure_entry w api_key status scale format_type msg))"
    by (rule enhance_image_failed)
next
  show "sent (logged w p entry) = sent w @ [Enhance_POST p, Logs_POST entry]"
    by (simp add: logged_def)
next
  show "logs_table (logged w p entry) =
       (if logs_create_fault w = None then logs_table w @ [entry] else logs_table w)"
    by (simp add: logged_def stored_def)
next
  show "auth_table (logged w p entry) = auth_table w"
    by (simp add: logged_def)
next
  show "log_status (failure_entry w api_key status scale format_type msg) = status"
    by (simp add: failure_entry_def)
qed

theorem enhance_image_failure_paths_witness:
  "enhance_image (failing_world (Raised ''timed out'')) [] ''K1'' 4 ''JPEG'' =
     ((False, None, Details_error ''timed out''),
      logged (failing_world (Raised ''timed out'')) (request_payload [] 4 ''JPEG'')
        (failure_entry (failing_world (Raised ''timed out'')) ''K1'' ''exception'' 4 ''JPEG''
           ''timed out''))
   \<and> enhance_image (failing_world (Returned 503 (''busy'', Inl ''no json''))) [] ''K1'' 4 ''JPEG'' =
     ((False, None, Details_error ''HTTP 503: busy''),
      logged (failing_world (Returned 503 (''busy'', Inl ''no json''))) (request_payload [] 4 ''JPEG'')
        (failure_entry (failing_world (Returned 503 (''busy'', Inl ''no json''))) ''K1''
           ''http_error'' 4 ''JPEG'' ''HTTP 503: busy''))
   \<and> enhance_image
       (failing_world (Returned 200 (''{}'', Inr (sample_result\<lparr>result_success := Some False,
          result_error := Some ''bad image''\<rparr>)))) [] ''K1'' 4 ''JPEG'' =
     ((False, None, Details_error ''bad image''),
      logged
        (failing_world (Returned 200 (''{}'', Inr (sample_result\<lparr>result_success := Some False,
           result_error := Some ''bad image''\<rparr>)))) (request_payload [] 4 ''JPEG'')
        (failure_entry
           (failing_world (Returned 200 (''{}'', Inr (sample_result\<lparr>result_success := Some False,
              result_error := Some ''bad image''\<rparr>)))) ''K1'' ''api_error'' 4 ''JPEG''
           ''bad image''))"
proof -
  have svc: "enhancement_service (failing_world reply) p = reply" for reply p
    by (simp add: failing_world_def)
  have code: "str_nat 503 = ''503''"
    by (simp add: str_nat.simps digit_char_def)
  from enhance_image_failure_paths
    [where w = "failing_world (Raised ''timed out'')" and e = "''timed out''"
      and image_data = "[]" and scale = 4 and format_type = "''JPEG''" and api_key = "''K1''",
      THEN conjunct1]
  have raised: "enhance_image (failing_world (Raised ''timed out'')) [] ''K1'' 4 ''JPEG'' =
     ((False, None, Details_error ''timed out''),
      logged (failing_world (Raised ''timed out'')) (request_payload [] 4 ''JPEG'')
        (failure_entry (failing_world (Raised ''timed out'')) ''K1'' ''exception'' 4 ''JPEG''
           ''timed out''))"
    by (simp add: svc)
  from enhance_image_failure_paths
    [where w = "failing_world (Returned 503 (''busy'', Inl ''no json''))" and status_code = 503
      and body_text = "''busy''" and json = "Inl ''no json''"
      and image_data = "[]" and scale = 4 and format_type = "''JPEG''" and api_key = "''K1''",
      THEN conjunct2, THEN conjunct1]
  have http: "enhance_image (failing_world (Returned 503 (''busy'', Inl ''no json''))) [] ''K1'' 4
      ''JPEG'' =
     ((False, None, Details_error ''HTTP 503: busy''),
      logged (failing_world (Returned 503 (''busy'', Inl ''no json''))) (request_payload [] 4 ''JPEG'')
        (failure_entry (failing_world (Returned 503 (''busy'', Inl ''no json''))) ''K1''
           ''http_error'' 4 ''JPEG'' ''HTTP 503: busy''))"
    by (simp add: svc code)
  from enhance_image_failure_paths
    [where w = "failing_world (Returned 200 (''{}'', Inr (sample_result\<lparr>result_success := Some False,
          result_error := Some ''bad image''\<rparr>)))" and body_text = "''{}''"
      and result = "sample_result\<lparr>result_success := Some False, result_error := Some ''bad image''\<rparr>"
      and image_data = "[]" and scale = 4 and format_type = "''JPEG''" and api_key = "''K1''",
      THEN conjunct2, THEN conjunct2, THEN conjunct1]
  have api: "enhance_image
       (failing_world (Returned 200 (''{}'', Inr (sample_result\<lparr>result_success := Some False,
          result_error := Some ''bad image''\<rparr>)))) [] ''K1'' 4 ''JPEG'' =
     ((False, None, Details_error ''bad image''),
      logged
        (failing_world (Returned 200 (''{}'', Inr (sample_result\<lparr>result_success := Some False,
           result_error := Some ''bad image''\<rparr>)))) (request_payload [] 4 ''JPEG'')
        (failure_entry
           (failing_world (Returned 200 (''{}'', Inr (sample_result\<lparr>result_success := Some False,
              result_error := Some ''bad image''\<rparr>)))) ''K1'' ''api_error'' 4 ''JPEG''
           ''bad image''))"
    by (simp add: svc)
  from raised http api show ?thesis by blast
qed

section \<open>The check when the store fails\<close>

text \<open>
  C3, as stated, fails: with the account of \<open>K1\<close> in the table and the query timing out,
  \<open>check_api_key_credits\<close> returns the very result it returns when the store answers and
  no record matches, so a store failure is not told apart from an unknown key.
\<close>

theorem check_unavailable_counterexample:
  "fst (check_api_key_credits
          (sample_world\<lparr>auth_query_fault := Some (Connection_error ''timed out'')\<rparr>) ''K1'')
     = (None, ''Cl'' @ [e_acute] @ '' API non trouv'' @ [e_acute] @ ''e'')
   \<and> fst (check_api_key_credits (sample_world\<lparr>auth_table := []\<rparr>) ''K1'')
     = (None, ''Cl'' @ [e_acute] @ '' API non trouv'' @ [e_acute] @ ''e'')
   \<and> account_of (sample_world\<lparr>auth_query_fault := Some (Connection_error ''timed out'')\<rparr>)
       ''K1'' = Some sample_account"
  by (simp add: check_not_found account_of_def sample_world_def sample_account_def)

text \<open>
  C3, amended. When the query meets a fault, a transport error or an error status,
  \<open>check_api_key_credits\<close> still returns: the status is \<open>None\<close> and the message is
  the French for "API key not found" of the source (its two accented letters are U+00E9),
  the same pair as when the store answers and no record is bound to the key. The code has
  no status of its own for a store that cannot be reached.
\<close>

theorem check_api_key_credits_store_failure:
  "(auth_query_fault w = Some f \<longrightarrow>
      fst (check_api_key_credits w api_key) =
        (None, ''Cl'' @ [e_acute] @ '' API non trouv'' @ [e_acute] @ ''e''))
   \<and> (auth_query_fault w = None \<and> account_of w api_key = None \<longrightarrow>
      fst (check_api_key_credits w api_key) =
        (None, ''Cl'' @ [e_acute] @ '' API non trouv'' @ [e_acute] @ ''e''))"
  by (simp add: check_not_found)

theorem check_api_key_credits_store_failure_witness:
  "fst (check_api_key_credits (sample_world\<lparr>auth_query_fault := Some (Error_status 503)\<rparr>) ''K1'')
     = (None, ''Cl'' @ [e_acute] @ '' API non trouv'' @ [e_acute] @ ''e'')
   \<and> fst (check_api_key_credits sample_world ''K9'')
     = (None, ''Cl'' @ [e_acute] @ '' API non trouv'' @ [e_acute] @ ''e'')"
  using check_api_key_credits_store_failure
      [of "sample_world\<lparr>auth_query_fault := Some (Error_status 503)\<rparr>" "Error_status 503" "''K1''"]
    check_api_key_credits_store_failure [of sample_world f "''K9''"]
  by (simp add: account_of_def sample_world_def sample_account_def)

section \<open>The status of the check\<close>

text \<open>
  C4. When the query is served and a record is bound to the key, the status that
  \<open>check_api_key_credits\<close> returns is \<open>False\<close> (exhausted) exactly when
  \<open>allowed - used \<le> 0\<close> and \<open>True\<close> (ok) otherwise, so never \<open>True\<close> with nothing
  remaining; the account table is unchanged.
\<close>

theorem check_api_key_credits_status:
  assumes "auth_query_fault w = None" and "account_of w api_key = Some record"
  shows "fst (fst (check_api_key_credits w api_key)) =
     (if get_or_zero (Allowed_credits (record_fields record))
           - get_or_zero (Used_credits (record_fields record)) \<le> 0
      then Some False else Some True)
   \<and> auth_table (snd (check_api_key_credits w api_key)) = auth_table w"
  by (simp add: check_found [OF assms] Let_def)

theorem check_api_key_credits_status_witness:
  "fst (fst (check_api_key_credits sample_world ''K1'')) = Some True
   \<and> fst (fst (check_api_key_credits
         (sample_world\<lparr>auth_table :=
            [\<lparr>record_id = ''rec2'',
              record_fields = \<lparr>API_KEY = Some ''K2'', Used_credits = Some 7,
                               Allowed_credits = Some 5\<rparr>\<rparr>]\<rparr>) ''K2'')) = Some False"
  using check_api_key_credits_status [of sample_world "''K1''" sample_account]
    check_api_key_credits_status [of "sample_world\<lparr>auth_table :=
            [\<lparr>record_id = ''rec2'',
              record_fields = \<lparr>API_KEY = Some ''K2'', Used_credits = Some 7,
                               Allowed_credits = Some 5\<rparr>\<rparr>]\<rparr>" "''K2''"
      "\<lparr>record_id = ''rec2'',
              record_fields = \<lparr>API_KEY = Some ''K2'', Used_credits = Some 7,
                               Allowed_credits = Some 5\<rparr>\<rparr>"]
  by (simp add: account_of_def sample_world_def sample_account_def get_or_zero_def)

section \<open>The scenario of the check\<close>

text \<open>
  C5. For the key \<open>K1\<close> bound to a record with 3 used and 5 allowed credits, the check
  returns \<open>True\<close> and the French message of the specification, which starts with the
  remaining 2 and ends with \<open>3/5)\<close>; its two accented letters are U+00E9.
\<close>

theorem check_api_key_credits_scenario:
  assumes "auth_query_fault w = None" and "account_of w ''K1'' = Some record"
    and "Used_credits (record_fields record) = Some 3"
    and "Allowed_credits (record_fields record) = Some 5"
  shows "fst (check_api_key_credits w ''K1'') =
     (Some True, ''2 cr'' @ [e_acute] @ ''dits restants (utilis'' @ [e_acute] @ ''s: 3/5)'')"
  using assms(3,4)
  by (simp add: check_found [OF assms(1,2)] Let_def get_or_zero_def str_int_digit digit_char_def)

theorem check_api_key_credits_scenario_witness:
  "fst (check_api_key_credits sample_world ''K1'') =
     (Some True, ''2 cr'' @ [e_acute] @ ''dits restants (utilis'' @ [e_acute] @ ''s: 3/5)'')"
  using check_api_key_credits_scenario [of sample_world sample_account]
  by (simp add: account_of_def sample_world_def sample_account_def)

section \<open>The answer with an error status\<close>

text \<open>
  C6. When the enhancement service answers with a status code other than 200,
  \<open>enhance_image\<close> returns \<open>False\<close>, no bytes and the error message \<open>HTTP\<close>, the code in
  decimal, a colon and the body, so \<open>HTTP 503: \<dots>\<close> for 503. It sends exactly one create
  request, for an audit entry of status \<open>http_error\<close> carrying that message, which the log
  table holds afterwards when the store serves the request; the account table is unchanged.
\<close>

theorem enhance_image_http_error_path:
  assumes "enhancement_service w (request_payload image_data scale format_type) =
      Returned status_code (body_text, json)"
    and "status_code \<noteq> 200"
  shows "fst (enhance_image w image_data api_key scale format_type) =
       (False, None, Details_error (''HTTP '' @ str_nat status_code @ '': '' @ body_text))
   \<and> sent (snd (enhance_image w image_data api_key scale format_type)) =
       sent w @
       [Enhance_POST (request_payload image_data scale format_type),
        Logs_POST (failure_entry w api_key ''http_error'' scale format_type
                     (''HTTP '' @ str_nat status_code @ '': '' @ body_text))]
   \<and> logs_table (snd (enhance_image w image_data api_key scale format_type)) =
       (if logs_create_fault w = None
        then logs_table w @
          [failure_entry w api_key ''http_error'' scale format_type
             (''HTTP '' @ str_nat status_code @ '': '' @ body_text)]
        else logs_table w)
   \<and> auth_table (snd (enhance_image w image_data api_key scale format_type)) = auth_table w
   \<and> (status_code = 503 \<longrightarrow>
        snd (snd (fst (enhance_image w image_data api_key scale format_type))) =
          Details_error (''HTTP 503: '' @ body_text))"
proof -
  have "str_nat 503 = ''503''"
    by (simp add: str_nat.simps digit_char_def)
  then show ?thesis
    by (simp add: enhance_image_http_error [OF assms] logged_def stored_def)
qed

theorem enhance_image_http_error_path_witness:
  "fst (enhance_image (failing_world (Returned 503 (''busy'', Inl ''no json''))) [] ''K1'' 4
      ''JPEG'') = (False, None, Details_error ''HTTP 503: busy'')
   \<and> sent (snd (enhance_image (failing_world (Returned 503 (''busy'', Inl ''no json''))) [] ''K1'' 4
      ''JPEG'')) =
       [Enhance_POST (request_payload [] 4 ''JPEG''),
        Logs_POST (failure_entry (failing_world (Returned 503 (''busy'', Inl ''no json''))) ''K1''
                     ''http_error'' 4 ''JPEG'' ''HTTP 503: busy'')]
   \<and> auth_table (snd (enhance_image (failing_world (Returned 503 (''busy'', Inl ''no json''))) []
      ''K1'' 4 ''JPEG'')) = [sample_account]"
proof -
  let ?w = "failing_world (Returned 503 (''busy'', Inl ''no json''))"
  have svc: "enhancement_service ?w (request_payload [] 4 ''JPEG'') =
      Returned 503 (''busy'', Inl ''no json'')"
    by (simp add: failing_world_def)
  have world: "sent ?w = []" "auth_table ?w = [sample_account]"
    by (simp_all add: failing_world_def sample_world_def)
  have code: "str_nat 503 = ''503''"
    by (simp add: str_nat.simps digit_char_def)
  note th = enhance_image_http_error_path [where api_key = "''K1''", OF svc]
  have "(503::nat) \<noteq> 200" by simp
  from th [OF this] show ?thesis
    by (simp add: world code)
qed

section \<open>The answer that reports an error\<close>

text \<open>
  C7, as stated, fails on the default text: for an answer 200 with \<open>success\<close> false and no
  \<open>error\<close> field the message is not \<open>unknown error\<close>.
\<close>

theorem api_error_default_counterexample:
  "snd (snd (fst (enhance_image
      (failing_world (Returned 200 (''{}'', Inr (sample_result\<lparr>result_success := Some False\<rparr>))))
      [] ''K1'' 4 ''JPEG''))) = Details_error ''Erreur inconnue''
   \<and> Details_error ''Erreur inconnue'' \<noteq> Details_error ''unknown error''"
proof -
  let ?r = "sample_result\<lparr>result_success := Some False\<rparr>"
  have "enhancement_service (failing_world (Returned 200 (''{}'', Inr ?r)))
      (request_payload [] 4 ''JPEG'') = Returned 200 (''{}'', Inr ?r)"
    by (simp add: failing_world_def)
  moreover have "result_success ?r \<noteq> Some True" "result_error ?r = None"
    by (simp_all add: sample_result_def)
  ultimately show ?thesis
    by (simp add: enhance_image_api_error)
qed

text \<open>
  C7, amended. When the enhancement service answers 200 without a true \<open>success\<close>,
  \<open>enhance_image\<close> returns \<open>False\<close>, logs one entry of status \<open>api_error\<close>, and the
  message of both is the \<open>error\<close> text of the answer as it came, or \<open>Erreur inconnue\<close> when
  the answer has no \<open>error\<close> field.
\<close>

theorem enhance_image_api_error_path:
  assumes "enhancement_service w (request_payload image_data scale format_type) =
      Returned 200 (body_text, Inr result)"
    and "result_success result \<noteq> Some True"
  shows "fst (enhance_image w image_data api_key scale format_type) =
       (False, None,
        Details_error (case result_error result of None \<Rightarrow> ''Erreur inconnue'' | Some m \<Rightarrow> m))
   \<and> sent (snd (enhance_image w image_data api_key scale format_type)) =
       sent w @
       [Enhance_POST (request_payload image_data scale format_type),
        Logs_POST (failure_entry w api_key ''api_error'' scale format_type
                     (case result_error result of None \<Rightarrow> ''Erreur inconnue'' | Some m \<Rightarrow> m))]
   \<and> auth_table (snd (enhance_image w image_data api_key scale format_type)) = auth_table w"
  by (simp add: enhance_image_api_error [OF assms] logged_def)

theorem enhance_image_api_error_path_witness:
  "fst (enhance_image
      (failing_world (Returned 200 (''{}'', Inr (sample_result\<lparr>result_success := Some False,
         result_error := Some ''bad image''\<rparr>)))) [] ''K1'' 4 ''JPEG'') =
     (False, None, Details_error ''bad image'')
   \<and> fst (enhance_image
      (failing_world (Returned 200 (''{}'', Inr (sample_result\<lparr>result_success := None\<rparr>))))
      [] ''K1'' 4 ''JPEG'') = (False, None, Details_error ''Erreur inconnue'')"
proof -
  let ?r = "sample_result\<lparr>result_success := Some False, result_error := Some ''bad image''\<rparr>"
  let ?q = "sample_result\<lparr>result_success := None\<rparr>"
  have svc: "enhancement_service (failing_world reply) p = reply" for reply p
    by (simp add: failing_world_def)
  have r: "result_success ?r \<noteq> Some True" "result_error ?r = Some ''bad image''"
    and q: "result_success ?q \<noteq> Some True" "result_error ?q = None"
    by (simp_all add: sample_result_def)
  from enhance_image_api_error_path [where api_key = "''K1''", OF svc r(1), THEN conjunct1]
    enhance_image_api_error_path [where api_key = "''K1''", OF svc q(1), THEN conjunct1]
  show ?thesis
    by (simp add: r q)
qed

section \<open>The increment\<close>

text \<open>
  C8. \<open>update_credits\<close> queries the account again. When the query is served and a record
  is bound to the key it sends one update of \<open>Used_credits\<close> to the current value plus the
  increment, and nothing else changes; when the update is served the account then holds
  that value, and when it is refused the account table is as before. When the query fails
  or finds no record, only the query has been sent. The function always returns, and a
  successful enhancement is returned as \<open>True\<close> with its bytes whatever the store does.
\<close>

theorem update_credits_best_effort:
  "(auth_query_fault w = None \<and> account_of w api_key = Some r \<longrightarrow>
      update_credits w api_key increment =
        w\<lparr>auth_table :=
             patched w (record_id r)
               (credit_patch (get_or_zero (Used_credits (record_fields r)) + increment)),
          sent := sent w @
            [Auth_GET (Some (key_filter api_key)),
             Auth_PATCH (record_id r)
               (credit_patch (get_or_zero (Used_credits (record_fields r)) + increment))]\<rparr>
      \<and> (auth_update_fault w = None \<longrightarrow>
           account_of (update_credits w api_key increment) api_key =
             Some (r\<lparr>record_fields := (record_fields r)
                     \<lparr>Used_credits :=
                        Some (get_or_zero (Used_credits (record_fields r)) + increment)\<rparr>\<rparr>))
      \<and> (auth_update_fault w \<noteq> None \<longrightarrow>
           auth_table (update_credits w api_key increment) = auth_table w))
   \<and> (auth_query_fault w \<noteq> None \<or> account_of w api_key = None \<longrightarrow>
        update_credits w api_key increment =
          w\<lparr>sent := sent w @ [Auth_GET (Some (key_filter api_key))]\<rparr>)
   \<and> (enhancement_service w (request_payload image_data scale format_type) =
          Returned 200 (body_text, Inr result)
        \<and> result_success result = Some True
        \<and> result_output_image result = Some output_image
        \<and> b64decode output_image = Inr output_data \<longrightarrow>
        fst (enhance_image w image_data api_key scale format_type) =
          (True, Some output_data, Details_result result))"
proof (intro conjI impI)
  assume found: "auth_query_fault w = None \<and> account_of w api_key = Some r"
  then show "update_credits w api_key increment =
        w\<lparr>auth_table :=
             patched w (record_id r)
               (credit_patch (get_or_zero (Used_credits (record_fields r)) + increment)),
          sent := sent w @
            [Auth_GET (Some (key_filter api_key)),
             Auth_PATCH (record_id r)
               (credit_patch (get_or_zero (Used_credits (record_fields r)) + increment))]\<rparr>"
    by (simp add: update_credits_found)
  {
    assume "auth_update_fault w = None"
    with found show "account_of (update_credits w api_key increment) api_key =
             Some (r\<lparr>record_fields := (record_fields r)
                     \<lparr>Used_credits :=
                        Some (get_or_zero (Used_credits (record_fields r)) + increment)\<rparr>\<rparr>)"
      by (simp add: account_of_update_credits)
  }
  {
    assume "auth_update_fault w \<noteq> None"
    with found show "auth_table (update_credits w api_key increment) = auth_table w"
      by (auto simp add: update_credits_found patched_def)
  }
next
  assume "auth_query_fault w \<noteq> None \<or> account_of w api_key = None"
  then show "update_credits w api_key increment =
          w\<lparr>sent := sent w @ [Auth_GET (Some (key_filter api_key))]\<rparr>"
    by (rule update_credits_not_found)
next
  assume "enhancement_service w (request_payload image_data scale format_type) =
          Returned 200 (body_text, Inr result)
        \<and> result_success result = Some True
        \<and> result_output_image result = Some output_image
        \<and> b64decode output_image = Inr output_data"
  then show "fst (enhance_image w image_data api_key scale format_type) =
          (True, Some output_data, Details_result result)"
    by (simp add: enhance_image_success)
qed

theorem update_credits_best_effort_witness:
  "account_of (update_credits sample_world ''K1'' 1) ''K1'' =
     Some (sample_account\<lparr>record_fields :=
             (record_fields sample_account)\<lparr>Used_credits := Some 4\<rparr>\<rparr>)
   \<and> auth_table (update_credits (sample_world\<lparr>auth_update_fault := Some (Error_status 500)\<rparr>)
         ''K1'' 1) = [sample_account]
   \<and> update_credits sample_world ''K9'' 1 =
       sample_world\<lparr>sent := [Auth_GET (Some (key_filter ''K9''))]\<rparr>
   \<and> fst (enhance_image (sample_world\<lparr>auth_update_fault := Some (Error_status 500)\<rparr>)
         [] ''K1'' 4 ''JPEG'') =
       (True, Some [104, 101, 108, 108, 111], Details_result sample_result)"
proof -
  let ?down = "sample_world\<lparr>auth_update_fault := Some (Error_status 500)\<rparr>"
  have world: "auth_query_fault sample_world = None" "auth_update_fault sample_world = None"
    "auth_query_fault ?down = None" "auth_update_fault ?down = Some (Error_status 500)"
    "auth_table ?down = [sample_account]" "sent sample_world = []"
    by (simp_all add: sample_world_def)
  have accounts: "account_of ?down ''K1'' = Some sample_account"
    "account_of sample_world ''K9'' = None"
    by (simp_all add: account_of_def sample_world_def sample_account_def)
  have used: "get_or_zero (Used_credits (record_fields sample_account)) = 3"
    by (simp add: sample_account_def get_or_zero_def)
  have res: "result_success sample_result = Some True"
    "result_output_image sample_result = Some ''aGVsbG8=''"
    by (simp_all add: sample_result_def)
  have svc: "enhancement_service ?down p = Returned 200 (''ok'', Inr sample_result)" for p
    by (simp add: sample_world_def)
  have found: "auth_query_fault sample_world = None \<and>
      account_of sample_world ''K1'' = Some sample_account"
    "auth_query_fault ?down = None \<and> account_of ?down ''K1'' = Some sample_account"
    by (simp_all add: world account_of_sample accounts)
  note up = update_credits_best_effort
    [where w = sample_world and api_key = "''K1''" and r = sample_account and increment = 1,
      THEN conjunct1, THEN mp, OF found(1)]
  note down = update_credits_best_effort
    [where w = ?down and api_key = "''K1''" and r = sample_account and increment = 1,
      THEN conjunct1, THEN mp, OF found(2)]
  from up [THEN conjunct2, THEN conjunct1, THEN mp, OF world(2)]
  have served: "account_of (update_credits sample_world ''K1'' 1) ''K1'' =
     Some (sample_account\<lparr>record_fields :=
             (record_fields sample_account)\<lparr>Used_credits := Some 4\<rparr>\<rparr>)"
    by (simp add: used)
  from down [THEN conjunct2, THEN conjunct2]
  have refused: "auth_table (update_credits ?down ''K1'' 1) = [sample_account]"
    by (simp only: world) simp
  from update_credits_best_effort
    [where w = sample_world and api_key = "''K9''" and increment = 1,
      THEN conjunct2, THEN conjunct1]
  have unknown: "update_credits sample_world ''K9'' 1 =
       sample_world\<lparr>sent := [Auth_GET (Some (key_filter ''K9''))]\<rparr>"
    by (simp add: accounts world)
  from update_credits_best_effort
    [where w = ?down and image_data = "[]" and scale = 4 and format_type = "''JPEG''"
      and body_text = "''ok''" and result = sample_result and output_image = "''aGVsbG8=''"
      and output_data = "[104, 101, 108, 108, 111]" and api_key = "''K1''",
      THEN conjunct2, THEN conjunct2]
  have delivered: "fst (enhance_image ?down [] ''K1'' 4 ''JPEG'') =
       (True, Some [104, 101, 108, 108, 111], Details_result sample_result)"
    using svc res b64decode_hello by simp
  from served refused unknown delivered show ?thesis by simp
qed

section \<open>Absent credit fields\<close>

text \<open>
  C10. An absent \<open>Used_credits\<close> or \<open>Allowed_credits\<close> counts as 0. A record with neither
  is reported exhausted, with the message that ends in \<open>0/0)\<close>; without
  \<open>Used_credits\<close> the status depends on the allowance alone and \<open>update_credits\<close> writes
  the increment itself; without \<open>Allowed_credits\<close> the remaining credit is minus the used.
\<close>

theorem missing_credit_fields_read_as_zero:
  assumes "auth_query_fault w = None" and "account_of w api_key = Some record"
  shows "(Used_credits (record_fields record) = None \<and>
          Allowed_credits (record_fields record) = None \<longrightarrow>
            fst (check_api_key_credits w api_key) =
              (Some False,
               ''Plus de cr'' @ [e_acute] @ ''dits restants (utilis'' @ [e_acute] @ ''s: 0/0)''))
   \<and> (Used_credits (record_fields record) = None \<longrightarrow>
         fst (fst (check_api_key_credits w api_key)) =
           (if get_or_zero (Allowed_credits (record_fields record)) \<le> 0 then Some False
            else Some True)
         \<and> sent (update_credits w api_key delta) =
             sent w @ [Auth_GET (Some (key_filter api_key)),
                       Auth_PATCH (record_id record) (credit_patch delta)]
         \<and> (auth_update_fault w = None \<longrightarrow>
              account_of (update_credits w api_key delta) api_key =
                Some (record\<lparr>record_fields :=
                        (record_fields record)\<lparr>Used_credits := Some delta\<rparr>\<rparr>)))
   \<and> (Allowed_credits (record_fields record) = None \<longrightarrow>
         fst (fst (check_api_key_credits w api_key)) =
           (if 0 \<le> get_or_zero (Used_credits (record_fields record)) then Some False
            else Some True))"
proof (intro conjI impI)
  assume "Used_credits (record_fields record) = None \<and>
          Allowed_credits (record_fields record) = None"
  then show "fst (check_api_key_credits w api_key) =
      (Some False,
       ''Plus de cr'' @ [e_acute] @ ''dits restants (utilis'' @ [e_acute] @ ''s: 0/0)'')"
    by (simp add: check_found [OF assms] Let_def get_or_zero_def str_int_digit digit_char_def)
next
  assume "Used_credits (record_fields record) = None"
  then show "fst (fst (check_api_key_credits w api_key)) =
      (if get_or_zero (Allowed_credits (record_fields record)) \<le> 0 then Some False
       else Some True)"
    by (simp add: check_found [OF assms] Let_def get_or_zero_def)
next
  assume "Used_credits (record_fields record) = None"
  then show "sent (update_credits w api_key delta) =
      sent w @ [Auth_GET (Some (key_filter api_key)),
                Auth_PATCH (record_id record) (credit_patch delta)]"
    by (simp add: update_credits_found [OF assms] get_or_zero_def)
next
  assume "Used_credits (record_fields record) = None" and "auth_update_fault w = None"
  then show "account_of (update_credits w api_key delta) api_key =
      Some (record\<lparr>record_fields := (record_fields record)\<lparr>Used_credits := Some delta\<rparr>\<rparr>)"
    by (simp add: account_of_update_credits [OF assms(1) _ assms(2)] get_or_zero_def)
next
  assume "Allowed_credits (record_fields record) = None"
  then show "fst (fst (check_api_key_credits w api_key)) =
      (if 0 \<le> get_or_zero (Used_credits (record_fields record)) then Some False
       else Some True)"
    by (simp add: check_found [OF assms] Let_def get_or_zero_def)
qed

theorem missing_credit_fields_read_as_zero_witness:
  "fst (check_api_key_credits (sample_world\<lparr>auth_table := [bare_account]\<rparr>) ''K7'') =
     (Some False,
      ''Plus de cr'' @ [e_acute] @ ''dits restants (utilis'' @ [e_acute] @ ''s: 0/0)'')
   \<and> account_of (update_credits (sample_world\<lparr>auth_table := [bare_account]\<rparr>) ''K7'' 2) ''K7'' =
       Some (bare_account\<lparr>record_fields :=
               (record_fields bare_account)\<lparr>Used_credits := Some 2\<rparr>\<rparr>)"
  using missing_credit_fields_read_as_zero
      [of "sample_world\<lparr>auth_table := [bare_account]\<rparr>" "''K7''" bare_account 2]
  by (simp add: account_of_def sample_world_def bare_account_def)

end
